theory Spec2Isabelle
  imports Complex_Main "HOL-Library.Sublist" "HOL-Library.AList"
begin

section \<open>Host-language values\<close>

text \<open>
  The services are TypeScript. Strings are modelled as \<open>string\<close> with ASCII case mapping
  and ASCII white space; numbers are exact rationals (the rounding error of IEEE doubles is
  not modelled); \<open>null\<close>/\<open>undefined\<close> is \<open>None\<close>. A thrown exception is a value of
  type \<open>error\<close>, returned as \<open>Inl\<close>.
\<close>

datatype prisma_call =
    Skill_findMany string
  | JobTarget_findUnique string
  | Experience_findMany string
  | JobScore_upsert nat string
  | Job_findFirst string string
  | Job_upsert string string
  | ScraperRun_create string
  | ScraperRun_update nat string

datatype error =
    TypeError string
  | PrismaError prisma_call
  | ScrapeError string

fun error_message :: "error \<Rightarrow> string" where
  "error_message (TypeError m) = m"
| "error_message (PrismaError c) = ''Invalid prisma invocation''"
| "error_message (ScrapeError m) = m"

text \<open>\<open>Math.round\<close>: the nearest integer, halves towards plus infinity.\<close>

definition Math_round :: "rat \<Rightarrow> rat" where
  "Math_round x = of_int \<lfloor>x + 1 / 2\<rfloor>"

text \<open>Truthiness of an optional number, an optional string and an optional boolean.\<close>

definition truthy_num :: "int option \<Rightarrow> bool" where
  "truthy_num x = (case x of None \<Rightarrow> False | Some v \<Rightarrow> v \<noteq> 0)"

definition truthy_nat :: "nat option \<Rightarrow> bool" where
  "truthy_nat x = (case x of None \<Rightarrow> False | Some v \<Rightarrow> v \<noteq> 0)"

definition truthy_str :: "string option \<Rightarrow> bool" where
  "truthy_str x = (case x of None \<Rightarrow> False | Some v \<Rightarrow> v \<noteq> [])"

definition truthy_bool :: "bool option \<Rightarrow> bool" where
  "truthy_bool x = (case x of None \<Rightarrow> False | Some v \<Rightarrow> v)"

text \<open>
  The number an optional column holds where the source reads it after testing that it is
  set; in a comparison JavaScript reads \<open>null\<close> as 0.
\<close>

definition num_of :: "int option \<Rightarrow> int" where
  "num_of x = (case x of None \<Rightarrow> 0 | Some v \<Rightarrow> v)"

definition nat_of :: "nat option \<Rightarrow> nat" where
  "nat_of x = (case x of None \<Rightarrow> 0 | Some v \<Rightarrow> v)"

subsection \<open>Strings\<close>

text \<open>\<open>toLowerCase\<close> maps the letters A to Z; every other character is kept.\<close>

definition toLowerCase_char :: "char \<Rightarrow> char" where
  "toLowerCase_char c =
     (case map_of (zip ''ABCDEFGHIJKLMNOPQRSTUVWXYZ'' ''abcdefghijklmnopqrstuvwxyz'') c of
        Some l \<Rightarrow> l
      | None \<Rightarrow> c)"

definition toLowerCase :: "string \<Rightarrow> string" where
  "toLowerCase s = map toLowerCase_char s"

text \<open>White space stripped by \<open>trim\<close>: tab, line feed, vertical tab, form feed,
  carriage return and space.\<close>

definition is_space :: "char \<Rightarrow> bool" where
  "is_space c = (c \<in> set [CHR 0x09, CHR 0x0A, CHR 0x0B, CHR 0x0C, CHR 0x0D, CHR '' ''])"

definition trim :: "string \<Rightarrow> string" where
  "trim s = rev (dropWhile is_space (rev (dropWhile is_space s)))"

text \<open>\<open>s.split(sep)\<close> for a one-character separator; the empty string gives \<open>['']\<close>.\<close>

fun split_str :: "char \<Rightarrow> string \<Rightarrow> string list" where
  "split_str sep [] = [[]]"
| "split_str sep (c # cs) =
     (if c = sep then [] # split_str sep cs
      else (case split_str sep cs of [] \<Rightarrow> [[c]] | w # ws \<Rightarrow> (c # w) # ws))"

text \<open>\<open>hay.includes(needle)\<close> on strings: \<open>needle\<close> occurs as a contiguous substring.\<close>

fun includes_str :: "string \<Rightarrow> string \<Rightarrow> bool" where
  "includes_str [] needle = (needle = [])"
| "includes_str (c # cs) needle = (prefix needle (c # cs) \<or> includes_str cs needle)"

subsection \<open>JSON\<close>

text \<open>
  A parsed JSON value. A number carries the text \<open>String(n)\<close> gives for it. The parser
  \<open>JSON.parse\<close> and the number formatting of template literals belong to the runtime and
  are parameters of the model (\<open>None\<close>: \<open>JSON.parse\<close> throws a SyntaxError).
\<close>

datatype json =
    JNull
  | JBool bool
  | JNumber string
  | JString string
  | JArray "json list"
  | JObject "(string \<times> json) list"

fun join_str :: "string \<Rightarrow> string list \<Rightarrow> string" where
  "join_str sep [] = []"
| "join_str sep [x] = x"
| "join_str sep (x # y # ys) = x @ sep @ join_str sep (y # ys)"

fun String_js :: "json \<Rightarrow> string" where
  "String_js JNull = ''null''"
| "String_js (JBool b) = (if b then ''true'' else ''false'')"
| "String_js (JNumber s) = s"
| "String_js (JString s) = s"
| "String_js (JArray xs) =
     join_str '','' (map (\<lambda>x. if x = JNull then [] else String_js x) xs)"
| "String_js (JObject kvs) = ''[object Object]''"

record runtime =
  JSON_parse :: "string \<Rightarrow> json option"
  Number_toString :: "rat \<Rightarrow> string"

section \<open>Job scoring service\<close>

subsection \<open>Rows read by the scorer\<close>

record ScrapedJob =
  externalId :: string
  source :: string
  sourceUrl :: string
  title :: string
  company :: string
  location :: "string option"
  isRemote :: "bool option"
  description :: "string option"
  requirements :: "string option"
  responsibilities :: "string option"
  skillsRequired :: "string option"
  salaryMin :: "int option"
  salaryMax :: "int option"
  salaryCurrency :: "string option"
  experienceMin :: "int option"
  experienceMax :: "int option"
  employmentType :: "string option"
  postedDate :: "int option"
  companyLogoUrl :: "string option"
  benefits :: "string option"
  industry :: "string option"
  companySize :: "string option"

text \<open>A stored job: the scraped columns and the primary key.\<close>

record Job = ScrapedJob +
  job_id :: nat

record Skill =
  skill_userId :: string
  skill_name :: string

text \<open>The salary targets are validated as non-negative integers when they are stored.\<close>

record JobTarget =
  target_userId :: string
  minSalary :: "nat option"
  maxSalary :: "nat option"
  remotePreference :: "string option"
  preferredLocations :: "string option"

text \<open>A date as the scorer reads it: the local full year and month, or an invalid date.\<close>

datatype Date = InvalidDate | ValidDate (getFullYear: int) (getMonth: int)

record Experience =
  exp_userId :: string
  startDate :: "Date option"
  endDate :: "Date option"
  isCurrent :: bool

record Breakdown =
  experienceAnalysis :: string
  salaryAnalysis :: string
  locationAnalysis :: string
  pros :: "string list"
  cons :: "string list"

record ScoreResult =
  overallScore :: rat
  semanticScore :: rat
  skillMatchScore :: rat
  experienceMatchScore :: rat
  salaryMatchScore :: rat
  locationMatchScore :: rat
  matchedSkills :: "string list"
  missingSkills :: "string list"
  breakdown :: Breakdown

subsection \<open>Skill matching\<close>

definition SKILL_SYNONYMS :: "(string \<times> string list) list" where
  "SKILL_SYNONYMS =
    [(''javascript'', [''js'', ''ecmascript'', ''es6'']),
     (''typescript'', [''ts'']),
     (''react'', [''reactjs'', ''react.js'']),
     (''node.js'', [''nodejs'', ''node'']),
     (''postgresql'', [''postgres'', ''psql'']),
     (''mongodb'', [''mongo'']),
     (''aws'', [''amazon web services'']),
     (''gcp'', [''google cloud'', ''google cloud platform'']),
     (''kubernetes'', [''k8s'']),
     (''machine learning'', [''ml'']),
     (''artificial intelligence'', [''ai'']),
     (''ci/cd'', [''cicd'', ''continuous integration''])]"

text \<open>
  \<open>SKILL_SYNONYMS\<close> is a plain object literal, so the lookup \<open>SKILL_SYNONYMS[skill]\<close>
  also finds the members every object inherits from \<open>Object.prototype\<close>. Those are
  functions (or, for \<open>__proto__\<close>, the prototype object): truthy, and not iterable.
\<close>

definition Object_prototype_properties :: "string list" where
  "Object_prototype_properties =
    [''constructor'', ''__defineGetter__'', ''__defineSetter__'', ''hasOwnProperty'',
     ''__lookupGetter__'', ''__lookupSetter__'', ''isPrototypeOf'',
     ''propertyIsEnumerable'', ''toString'', ''valueOf'', ''__proto__'',
     ''toLocaleString'']"

datatype property = OwnArray "string list" | Inherited | Undefined

definition SKILL_SYNONYMS_get :: "string \<Rightarrow> property" where
  "SKILL_SYNONYMS_get k =
     (case map_of SKILL_SYNONYMS k of
        Some syns \<Rightarrow> OwnArray syns
      | None \<Rightarrow> if k \<in> set Object_prototype_properties then Inherited else Undefined)"

definition parsed_list :: "string list \<Rightarrow> string list" where
  "parsed_list xs = filter (\<lambda>s. length s > 0) (map trim xs)"

definition parseSkillsString :: "runtime \<Rightarrow> string option \<Rightarrow> string list" where
  "parseSkillsString rt skills =
     (case skills of
        None \<Rightarrow> []
      | Some s \<Rightarrow>
          if s = [] \<or> trim s = [] then []
          else (case JSON_parse rt s of
                  Some (JArray parsed) \<Rightarrow> parsed_list (map String_js parsed)
                | Some (JString parsed) \<Rightarrow> parsed_list (split_str CHR '','' parsed)
                | Some _ \<Rightarrow> []
                | None \<Rightarrow> parsed_list (split_str CHR '','' s)))"

fun normalize_entries :: "(string \<times> string list) list \<Rightarrow> string \<Rightarrow> string" where
  "normalize_entries [] lower = lower"
| "normalize_entries ((canonical, synonyms) # rest) lower =
     (if lower = canonical \<or> lower \<in> set synonyms then canonical
      else normalize_entries rest lower)"

definition normalizeSkill :: "string \<Rightarrow> string" where
  "normalizeSkill skill = normalize_entries SKILL_SYNONYMS (trim (toLowerCase skill))"

text \<open>
  The distance matrix is filled row by row; \<open>lev_row\<close> computes the cells of row \<open>i\<close>
  from column 1 on, given the previous row and the cell to the left.
\<close>

fun lev_row :: "char \<Rightarrow> string \<Rightarrow> nat list \<Rightarrow> nat \<Rightarrow> nat list" where
  "lev_row bc (ac # cs) (diag # up # prev) left =
     (let cell = (if bc = ac then diag
                  else min (diag + 1) (min (left + 1) (up + 1)))
      in cell # lev_row bc cs (up # prev) cell)"
| "lev_row bc cs prev left = []"

fun lev_rows :: "string \<Rightarrow> string \<Rightarrow> nat \<Rightarrow> nat list \<Rightarrow> nat list" where
  "lev_rows a [] i prev = prev"
| "lev_rows a (bc # bs) i prev =
     lev_rows a bs (Suc i) (Suc i # lev_row bc a prev (Suc i))"

definition levenshteinDistance :: "string \<Rightarrow> string \<Rightarrow> nat" where
  "levenshteinDistance a b =
     (if length a = 0 then length b
      else if length b = 0 then length a
      else last (lev_rows a b 0 [0..<Suc (length a)]))"

definition fuzzy :: "string \<Rightarrow> string \<Rightarrow> bool" where
  "fuzzy skill userSkill =
     (includes_str userSkill skill \<or> includes_str skill userSkill
      \<or> levenshteinDistance skill userSkill \<le> 2)"

definition skillMatches :: "string \<Rightarrow> string list \<Rightarrow> error + bool" where
  "skillMatches skill userSkills =
     (if skill \<in> set userSkills then Inr True
      else (case SKILL_SYNONYMS_get skill of
              Inherited \<Rightarrow> Inl (TypeError ''synonyms is not iterable'')
            | OwnArray synonyms \<Rightarrow>
                if list_ex (\<lambda>syn. syn \<in> set userSkills) synonyms then Inr True
                else Inr (list_ex (fuzzy skill) userSkills)
            | Undefined \<Rightarrow> Inr (list_ex (fuzzy skill) userSkills)))"

fun match_loop ::
  "string list \<Rightarrow> string list \<Rightarrow> string list \<Rightarrow> string list
     \<Rightarrow> error + string list \<times> string list" where
  "match_loop [] userSkillNames matched missing = Inr (matched, missing)"
| "match_loop (required # rest) userSkillNames matched missing =
     (case skillMatches (normalizeSkill required) userSkillNames of
        Inl e \<Rightarrow> Inl e
      | Inr True \<Rightarrow> match_loop rest userSkillNames (matched @ [required]) missing
      | Inr False \<Rightarrow> match_loop rest userSkillNames matched (missing @ [required]))"

definition calculateSkillMatch ::
  "runtime \<Rightarrow> 'a Job_scheme \<Rightarrow> Skill list \<Rightarrow> error + rat \<times> string list \<times> string list" where
  "calculateSkillMatch rt job userSkills =
     (let requiredSkills = parseSkillsString rt (skillsRequired job) in
      if length requiredSkills = 0 then Inr (75, [], [])
      else (case match_loop requiredSkills
                   (map (\<lambda>s. normalizeSkill (skill_name s)) userSkills) [] [] of
              Inl e \<Rightarrow> Inl e
            | Inr (matched, missing) \<Rightarrow>
                Inr (Math_round (of_nat (length matched) / of_nat (length requiredSkills) * 100),
                     matched, missing)))"

subsection \<open>Experience, salary and location\<close>

text \<open>
  \<open>now\<close> is the local full year and month of \<open>new Date()\<close> at the time of the call.
\<close>

definition experience_months :: "int \<times> int \<Rightarrow> Experience \<Rightarrow> int" where
  "experience_months now xp =
     (case startDate xp of
        None \<Rightarrow> 0
      | Some start \<Rightarrow>
          (let today = ValidDate (fst now) (snd now);
               endD = (if isCurrent xp then today
                       else (case endDate xp of Some d \<Rightarrow> d | None \<Rightarrow> today))
           in case (start, endD) of
                (ValidDate sy sm, ValidDate ey em) \<Rightarrow>
                  (let months = (ey - sy) * 12 + (em - sm)
                   in if months > 0 then months else 0)
              | _ \<Rightarrow> 0))"

definition calculateTotalYears :: "int \<times> int \<Rightarrow> Experience list \<Rightarrow> rat" where
  "calculateTotalYears now experiences =
     (let totalMonths =
            foldl (\<lambda>total xp. total + experience_months now xp) 0 experiences
      in Math_round ((of_int totalMonths / 12) * 10) / 10)"

text \<open>
  \<open>job.experienceMax || Infinity\<close>: \<open>None\<close> stands for \<open>Infinity\<close>. With an infinite
  maximum the years are never above it, so the last branch of the source is only reached
  with a finite maximum.
\<close>

definition calculateExperienceMatch ::
  "runtime \<Rightarrow> int \<times> int \<Rightarrow> 'a Job_scheme \<Rightarrow> Experience list \<Rightarrow> rat \<times> string" where
  "calculateExperienceMatch rt now job experiences =
     (let totalYears = calculateTotalYears now experiences;
          N = Number_toString rt
      in if \<not> truthy_num (experienceMin job) \<and> \<not> truthy_num (experienceMax job)
         then (80, ''No experience requirement specified'')
         else
           (let mn = num_of (experienceMin job);
                mx = (case experienceMax job of
                        Some v \<Rightarrow> if v \<noteq> 0 then Some v else None | None \<Rightarrow> None);
                below = (let gap = of_int mn - totalYears
                         in (max 0 (100 - gap * 15),
                             ''You have '' @ N totalYears @ '' years but '' @ N (of_int mn)
                               @ ''+ is required ('' @ N gap @ '' year gap)''))
            in case mx of
                 None \<Rightarrow>
                   if totalYears \<ge> of_int mn
                   then (100, ''Your '' @ N totalYears @ '' years matches the ''
                                @ N (of_int mn) @ ''-Infinity year requirement'')
                   else below
               | Some m \<Rightarrow>
                   if totalYears \<ge> of_int mn \<and> totalYears \<le> of_int m
                   then (100, ''Your '' @ N totalYears @ '' years matches the ''
                                @ N (of_int mn) @ ''-'' @ N (of_int m) @ '' year requirement'')
                   else if totalYears < of_int mn then below
                   else (let excess = totalYears - of_int m
                         in (max 60 (100 - excess * 5),
                             ''You have '' @ N totalYears @ '' years which exceeds the ''
                               @ N (of_int m) @ '' year max''))))"

definition calculateSalaryMatch :: "'a Job_scheme \<Rightarrow> JobTarget option \<Rightarrow> rat \<times> string" where
  "calculateSalaryMatch job targets =
     (let targetMin = (case targets of None \<Rightarrow> None | Some t \<Rightarrow> minSalary t);
          targetMax = (case targets of None \<Rightarrow> None | Some t \<Rightarrow> maxSalary t)
      in if \<not> truthy_num (salaryMin job) \<and> \<not> truthy_num (salaryMax job)
         then (70, ''Salary not disclosed'')
         else if \<not> truthy_nat targetMin
         then (80, ''No salary preference set'')
         else if truthy_num (salaryMax job) \<and> num_of (salaryMax job) < int (nat_of targetMin)
         then (let gap = ((of_nat (nat_of targetMin) - of_int (num_of (salaryMax job)))
                           / of_nat (nat_of targetMin)) * 100
               in (max 0 (100 - gap), ''Max salary is below your minimum expectation''))
         else if truthy_num (salaryMin job) \<and> truthy_nat targetMax
                 \<and> num_of (salaryMin job) > int (nat_of targetMax)
         then (95, ''Salary exceeds your target range'')
         else (85, ''Salary range aligns with your target''))"

definition parseLocationsString :: "runtime \<Rightarrow> string option \<Rightarrow> string list" where
  "parseLocationsString rt locations =
     (case locations of
        None \<Rightarrow> []
      | Some s \<Rightarrow>
          if s = [] \<or> trim s = [] then []
          else (case JSON_parse rt s of
                  Some (JArray parsed) \<Rightarrow> parsed_list (map String_js parsed)
                | Some (JString parsed) \<Rightarrow> parsed_list (split_str CHR '','' parsed)
                | Some _ \<Rightarrow> []
                | None \<Rightarrow> parsed_list (split_str CHR '','' s)))"

definition calculateLocationMatch ::
  "runtime \<Rightarrow> 'a Job_scheme \<Rightarrow> JobTarget option \<Rightarrow> rat \<times> string" where
  "calculateLocationMatch rt job targets =
     (let pref = (case targets of None \<Rightarrow> None | Some t \<Rightarrow> remotePreference t);
          locs = (case targets of None \<Rightarrow> None | Some t \<Rightarrow> preferredLocations t)
      in if pref = Some ''remote''
         then (if truthy_bool (isRemote job)
               then (100, ''Remote position matches your preference'')
               else (30, ''Not remote, but you prefer remote work''))
         else if pref = Some ''any'' then (90, ''You are flexible on location'')
         else if \<not> truthy_str locs then (80, ''No location preference set'')
         else
           (let preferred = parseLocationsString rt locs;
                jobLocation = (case location job of None \<Rightarrow> [] | Some l \<Rightarrow> toLowerCase l)
            in if length preferred = 0 then (80, ''No location preference set'')
               else if list_ex (\<lambda>loc. includes_str jobLocation (toLowerCase loc)) preferred
               then (100, ''Location matches your preferences'')
               else (40, ''Location not in your preferred locations'')))"

subsection \<open>The database\<close>

text \<open>
  The Prisma client is an external collaborator. Its tables are lists of rows; a call either
  rejects or answers from the tables, and \<open>rejects\<close> says which calls reject. The stored
  score row keeps the scores and lists themselves (the source stores the lists and the
  breakdown as JSON text).
\<close>

record JobScore =
  score_jobId :: nat
  score_userId :: string
  score_data :: ScoreResult

record ScraperRun =
  run_id :: nat
  run_source :: string
  run_status :: string
  startedAt :: int
  completedAt :: "int option"
  run_jobsFound :: "nat option"
  run_jobsNew :: "nat option"
  run_jobsUpdated :: "nat option"
  errorMessage :: "string option"

record prisma =
  skill_table :: "Skill list"
  jobTarget_table :: "JobTarget list"
  experience_table :: "Experience list"
  jobScore_table :: "JobScore list"
  job_table :: "Job list"
  scraperRun_table :: "ScraperRun list"
  next_id :: nat
  rejects :: "prisma_call \<Rightarrow> bool"

definition skill_findMany :: "prisma \<Rightarrow> string \<Rightarrow> error + Skill list" where
  "skill_findMany db userId =
     (if rejects db (Skill_findMany userId) then Inl (PrismaError (Skill_findMany userId))
      else Inr (filter (\<lambda>s. skill_userId s = userId) (skill_table db)))"

definition jobTarget_findUnique :: "prisma \<Rightarrow> string \<Rightarrow> error + JobTarget option" where
  "jobTarget_findUnique db userId =
     (if rejects db (JobTarget_findUnique userId)
      then Inl (PrismaError (JobTarget_findUnique userId))
      else Inr (find (\<lambda>t. target_userId t = userId) (jobTarget_table db)))"

definition experience_findMany :: "prisma \<Rightarrow> string \<Rightarrow> error + Experience list" where
  "experience_findMany db userId =
     (if rejects db (Experience_findMany userId)
      then Inl (PrismaError (Experience_findMany userId))
      else Inr (filter (\<lambda>x. exp_userId x = userId) (experience_table db)))"

text \<open>Upsert on the unique key \<open>(jobId, userId)\<close>: update the row found, else create one.\<close>

fun upsert_score :: "nat \<Rightarrow> string \<Rightarrow> ScoreResult \<Rightarrow> JobScore list \<Rightarrow> JobScore list" where
  "upsert_score jobId userId d [] =
     [\<lparr>score_jobId = jobId, score_userId = userId, score_data = d\<rparr>]"
| "upsert_score jobId userId d (r # rs) =
     (if score_jobId r = jobId \<and> score_userId r = userId then r\<lparr>score_data := d\<rparr> # rs
      else r # upsert_score jobId userId d rs)"

definition jobScore_upsert :: "prisma \<Rightarrow> nat \<Rightarrow> string \<Rightarrow> ScoreResult \<Rightarrow> error + prisma" where
  "jobScore_upsert db jobId userId d =
     (if rejects db (JobScore_upsert jobId userId)
      then Inl (PrismaError (JobScore_upsert jobId userId))
      else Inr (db\<lparr>jobScore_table := upsert_score jobId userId d (jobScore_table db)\<rparr>))"

subsection \<open>scoreJob\<close>

definition compile_pros ::
  "runtime \<Rightarrow> rat \<Rightarrow> string list \<Rightarrow> rat \<Rightarrow> rat \<Rightarrow> rat \<Rightarrow> string list" where
  "compile_pros rt skillScore matched experienceScore salaryScore locationScore =
     (if skillScore \<ge> 70
      then [Number_toString rt (of_nat (length matched)) @ '' skills match''] else [])
     @ (if experienceScore \<ge> 80 then [''Experience level matches well''] else [])
     @ (if salaryScore \<ge> 80 then [''Salary range aligns''] else [])
     @ (if locationScore \<ge> 80 then [''Location/remote preference matches''] else [])"

definition compile_cons ::
  "runtime \<Rightarrow> rat \<Rightarrow> string list \<Rightarrow> rat \<Rightarrow> rat \<Rightarrow> string list" where
  "compile_cons rt skillScore missing experienceScore salaryScore =
     (if skillScore \<ge> 70 then []
      else if length missing > 0
      then [''Missing '' @ Number_toString rt (of_nat (length missing)) @ '' skills'']
      else [])
     @ (if experienceScore \<ge> 80 then []
        else if experienceScore < 50 then [''Experience level mismatch''] else [])
     @ (if salaryScore \<ge> 80 then []
        else if salaryScore < 50 then [''Salary below expectations''] else [])"

text \<open>
  The part of the \<open>try\<close> block between the reads and the write: the four computed
  scores, the fixed semantic score, the weighted overall score, and the pros and cons.
\<close>

definition computed_scores ::
  "runtime \<Rightarrow> int \<times> int \<Rightarrow> Job \<Rightarrow> Skill list \<Rightarrow> JobTarget option \<Rightarrow> Experience list
     \<Rightarrow> error + ScoreResult" where
  "computed_scores rt now job skills jobTargets experiences =
     (case calculateSkillMatch rt job skills of
        Inl e \<Rightarrow> Inl e
      | Inr (skillScore, matched, missing) \<Rightarrow>
          (let (experienceScore, experienceText) =
                 calculateExperienceMatch rt now job experiences;
               (salaryScore, salaryText) = calculateSalaryMatch job jobTargets;
               (locationScore, locationText) = calculateLocationMatch rt job jobTargets;
               semantic = 70;
               overall = Math_round (semantic * (3 / 10) + skillScore * (3 / 10)
                           + experienceScore * (2 / 10) + salaryScore * (1 / 10)
                           + locationScore * (1 / 10))
           in Inr \<lparr>overallScore = overall, semanticScore = semantic,
                   skillMatchScore = skillScore, experienceMatchScore = experienceScore,
                   salaryMatchScore = salaryScore, locationMatchScore = locationScore,
                   matchedSkills = matched, missingSkills = missing,
                   breakdown =
                     \<lparr>experienceAnalysis = experienceText, salaryAnalysis = salaryText,
                      locationAnalysis = locationText,
                      pros = compile_pros rt skillScore matched experienceScore salaryScore
                               locationScore,
                      cons = compile_cons rt skillScore missing experienceScore
                               salaryScore\<rparr>\<rparr>))"

text \<open>The body of the \<open>try\<close> block: the three reads, the scores, and the stored row.\<close>

definition scoreJob_try ::
  "runtime \<Rightarrow> int \<times> int \<Rightarrow> string \<Rightarrow> Job \<Rightarrow> prisma \<Rightarrow> error + ScoreResult \<times> prisma" where
  "scoreJob_try rt now userId job database =
     (case skill_findMany database userId of
        Inl e \<Rightarrow> Inl e
      | Inr skills \<Rightarrow>
     (case jobTarget_findUnique database userId of
        Inl e \<Rightarrow> Inl e
      | Inr jobTargets \<Rightarrow>
     (case experience_findMany database userId of
        Inl e \<Rightarrow> Inl e
      | Inr experiences \<Rightarrow>
     (case computed_scores rt now job skills jobTargets experiences of
        Inl e \<Rightarrow> Inl e
      | Inr result \<Rightarrow>
     (case jobScore_upsert database (job_id job) userId result of
        Inl e \<Rightarrow> Inl e
      | Inr database' \<Rightarrow> Inr (result, database'))))))"

text \<open>The result of the \<open>catch\<close> block.\<close>

definition default_scores :: ScoreResult where
  "default_scores =
     \<lparr>overallScore = 50, semanticScore = 50, skillMatchScore = 50,
      experienceMatchScore = 50, salaryMatchScore = 50, locationMatchScore = 50,
      matchedSkills = [], missingSkills = [],
      breakdown =
        \<lparr>experienceAnalysis = ''Unable to analyze'', salaryAnalysis = ''Unable to analyze'',
         locationAnalysis = ''Unable to analyze'', pros = [],
         cons = [''Error occurred during scoring'']\<rparr>\<rparr>"

definition scoreJob ::
  "runtime \<Rightarrow> int \<times> int \<Rightarrow> string \<Rightarrow> Job \<Rightarrow> prisma \<Rightarrow> ScoreResult \<times> prisma" where
  "scoreJob rt now userId job db =
     (case scoreJob_try rt now userId job db of
        Inr (result, db') \<Rightarrow> (result, db')
      | Inl e \<Rightarrow> (default_scores, db))"

text \<open>
  The loop of \<open>scoreNewJobs\<close> over the jobs it fetched: each job is scored inside its own
  \<open>try\<close>, and the count of scored jobs is returned.
\<close>

fun scoreNewJobs_loop ::
  "runtime \<Rightarrow> int \<times> int \<Rightarrow> string \<Rightarrow> Job list \<Rightarrow> nat \<Rightarrow> prisma \<Rightarrow> nat \<times> prisma" where
  "scoreNewJobs_loop rt now userId [] scored db = (scored, db)"
| "scoreNewJobs_loop rt now userId (job # jobs) scored db =
     (let (result, db') = scoreJob rt now userId job db
      in scoreNewJobs_loop rt now userId jobs (Suc scored) db')"

text \<open>
  The loop of \<open>JobsService.scoreJobs\<close> over the jobs it fetched: no \<open>try\<close> around the
  call, one entry per job.
\<close>

fun scoreJobs_loop ::
  "runtime \<Rightarrow> int \<times> int \<Rightarrow> string \<Rightarrow> Job list \<Rightarrow> prisma \<Rightarrow> (nat \<times> ScoreResult) list \<times> prisma" where
  "scoreJobs_loop rt now userId [] database = ([], database)"
| "scoreJobs_loop rt now userId (job # jobs) database =
     (let (score, database') = scoreJob rt now userId job database;
          (rest, database'') = scoreJobs_loop rt now userId jobs database'
      in ((job_id job, score) # rest, database''))"

section \<open>Scraper orchestration service\<close>

subsection \<open>Data\<close>

record SourceHealth =
  health_source :: string
  health_enabled :: bool
  isBlocked :: bool
  blockedAt :: "int option"
  consecutiveFailures :: nat
  lastSuccess :: "int option"
  lastRun :: "int option"

record ScraperConfig =
  config_keywords :: "string list"
  config_location :: "string option"
  locations :: "string list option"
  remote :: "bool option"
  experienceYears :: "rat option"
  config_salaryMin :: "rat option"
  config_salaryCurrency :: "string option"

text \<open>\<open>Partial<ScraperConfig>\<close>: \<open>None\<close> is a key the caller did not set.\<close>

record PartialConfig =
  custom_keywords :: "string list option"
  custom_location :: "string option"
  custom_locations :: "string list option"
  custom_remote :: "bool option"
  custom_experienceYears :: "rat option"
  custom_salaryMin :: "rat option"
  custom_salaryCurrency :: "string option"

text \<open>
  A portal adapter. Its \<open>scrape\<close> is an external call: the model takes, for each search
  configuration, the milliseconds the call takes and whether it throws or returns jobs.
\<close>

record IScraper =
  name :: string
  enabled :: bool
  scrape :: "ScraperConfig \<Rightarrow> nat \<times> (error + ScrapedJob list)"

record ScraperResult =
  result_source :: string
  success :: bool
  jobsFound :: nat
  jobsNew :: nat
  jobsUpdated :: nat
  result_error :: "string option"
  blocked :: "bool option"
  duration :: "int option"

record ScrapeSummary =
  results :: "ScraperResult list"
  totalJobsNew :: nat
  totalJobsUpdated :: nat

text \<open>
  The service: the two insertion-ordered maps, the injected database client, and the
  wall clock in milliseconds (what \<open>Date.now()\<close> and \<open>new Date()\<close> read).
\<close>

record ScrapersService =
  scrapers :: "(string \<times> IScraper) list"
  sourceHealth :: "(string \<times> SourceHealth) list"
  db :: prisma
  clock :: int

definition maxConcurrency :: nat where
  "maxConcurrency = 3"

definition maxConsecutiveFailures :: nat where
  "maxConsecutiveFailures = 3"

definition blockDuration :: int where
  "blockDuration = 24 * 60 * 60 * 1000"

definition scraper_names :: "string list" where
  "scraper_names =
     [''indeed'', ''naukri'', ''linkedin'', ''wellfound'', ''foundit'', ''hirist'', ''cutshort'']"

text \<open>The constructor: one adapter per portal, each enabled, each with fresh health.\<close>

definition initializeScrapers ::
  "(string \<Rightarrow> ScraperConfig \<Rightarrow> nat \<times> (error + ScrapedJob list)) \<Rightarrow> prisma \<Rightarrow> int
     \<Rightarrow> ScrapersService" where
  "initializeScrapers portal database now =
     (let scraperInstances =
            map (\<lambda>n. \<lparr>name = n, enabled = True, scrape = portal n\<rparr>) scraper_names
      in \<lparr>scrapers = map (\<lambda>scraper. (name scraper, scraper)) scraperInstances,
          sourceHealth =
            map (\<lambda>scraper.
                   (name scraper,
                    \<lparr>health_source = name scraper, health_enabled = enabled scraper,
                     isBlocked = False, blockedAt = None, consecutiveFailures = 0,
                     lastSuccess = None, lastRun = None\<rparr>)) scraperInstances,
          db = database, clock = now\<rparr>)"

subsection \<open>Source health\<close>

definition isSourceAvailable ::
  "int \<Rightarrow> string \<Rightarrow> (string \<times> SourceHealth) list
     \<Rightarrow> bool \<times> (string \<times> SourceHealth) list" where
  "isSourceAvailable now src hm =
     (case map_of hm src of
        None \<Rightarrow> (False, hm)
      | Some health \<Rightarrow>
          if isBlocked health then
            (case blockedAt health of
               Some since \<Rightarrow>
                 if now - since \<ge> blockDuration
                 then (True, AList.update src
                               (health\<lparr>isBlocked := False, blockedAt := None,
                                       consecutiveFailures := 0\<rparr>) hm)
                 else (False, hm)
             | None \<Rightarrow> (False, hm))
          else (health_enabled health, hm))"

definition updateSourceHealth ::
  "int \<Rightarrow> string \<Rightarrow> bool \<Rightarrow> (string \<times> SourceHealth) list
     \<Rightarrow> bool \<times> (string \<times> SourceHealth) list" where
  "updateSourceHealth now src ok hm =
     (case map_of hm src of
        None \<Rightarrow> (False, hm)
      | Some health \<Rightarrow>
          if ok then
            (False, AList.update src
                      (health\<lparr>consecutiveFailures := 0, lastSuccess := Some now,
                              lastRun := Some now, isBlocked := False,
                              blockedAt := None\<rparr>) hm)
          else
            (let failed = health\<lparr>consecutiveFailures := Suc (consecutiveFailures health),
                                  lastRun := Some now\<rparr>
             in if consecutiveFailures failed \<ge> maxConsecutiveFailures
                then (True, AList.update src
                              (failed\<lparr>isBlocked := True, blockedAt := Some now\<rparr>) hm)
                else (False, AList.update src failed hm)))"

definition setSourceEnabled ::
  "string \<Rightarrow> bool \<Rightarrow> ScrapersService \<Rightarrow> bool \<times> ScrapersService" where
  "setSourceEnabled src flag st =
     (case map_of (sourceHealth st) src of
        None \<Rightarrow> (False, st)
      | Some health \<Rightarrow>
          (let st1 = st\<lparr>sourceHealth :=
                         AList.update src (health\<lparr>health_enabled := flag\<rparr>) (sourceHealth st)\<rparr>
           in case map_of (scrapers st1) src of
                None \<Rightarrow> (True, st1)
              | Some scraper \<Rightarrow>
                  (True, st1\<lparr>scrapers :=
                               AList.update src (scraper\<lparr>enabled := flag\<rparr>) (scrapers st1)\<rparr>)))"

definition unblockSource ::
  "string \<Rightarrow> (string \<times> SourceHealth) list \<Rightarrow> bool \<times> (string \<times> SourceHealth) list" where
  "unblockSource src hm =
     (case map_of hm src of
        None \<Rightarrow> (False, hm)
      | Some health \<Rightarrow>
          (True, AList.update src
                   (health\<lparr>isBlocked := False, blockedAt := None,
                           consecutiveFailures := 0\<rparr>) hm))"

subsection \<open>Persisting scraped jobs\<close>

definition job_findFirst :: "prisma \<Rightarrow> string \<Rightarrow> string \<Rightarrow> error + Job option" where
  "job_findFirst database src ext =
     (if rejects database (Job_findFirst src ext) then Inl (PrismaError (Job_findFirst src ext))
      else Inr (find (\<lambda>j. source j = src \<and> externalId j = ext) (job_table database)))"

definition keep :: "'a option \<Rightarrow> 'a option \<Rightarrow> 'a option" where
  "keep new old = (case new of None \<Rightarrow> old | Some v \<Rightarrow> Some v)"

text \<open>The \<open>update\<close> arm of the upsert: a column the data leaves undefined is not written.\<close>

definition update_job :: "Job \<Rightarrow> ScrapedJob \<Rightarrow> Job" where
  "update_job row d =
     row\<lparr>externalId := externalId d, source := source d, sourceUrl := sourceUrl d,
         title := title d, company := company d,
         location := keep (location d) (location row),
         isRemote := keep (isRemote d) (isRemote row),
         description := keep (description d) (description row),
         requirements := keep (requirements d) (requirements row),
         responsibilities := keep (responsibilities d) (responsibilities row),
         skillsRequired := keep (skillsRequired d) (skillsRequired row),
         salaryMin := keep (salaryMin d) (salaryMin row),
         salaryMax := keep (salaryMax d) (salaryMax row),
         salaryCurrency := keep (salaryCurrency d) (salaryCurrency row),
         experienceMin := keep (experienceMin d) (experienceMin row),
         experienceMax := keep (experienceMax d) (experienceMax row),
         employmentType := keep (employmentType d) (employmentType row),
         postedDate := keep (postedDate d) (postedDate row),
         companyLogoUrl := keep (companyLogoUrl d) (companyLogoUrl row),
         benefits := keep (benefits d) (benefits row),
         industry := keep (industry d) (industry row),
         companySize := keep (companySize d) (companySize row)\<rparr>"

definition create_job :: "nat \<Rightarrow> ScrapedJob \<Rightarrow> Job" where
  "create_job new_id d = ScrapedJob.extend d (Job.fields new_id)"

text \<open>Upsert on the unique key \<open>(source, externalId)\<close>.\<close>

fun upsert_job :: "nat \<Rightarrow> ScrapedJob \<Rightarrow> Job list \<Rightarrow> Job list" where
  "upsert_job new_id d [] = [create_job new_id d]"
| "upsert_job new_id d (row # rows) =
     (if source row = source d \<and> externalId row = externalId d
      then update_job row d # rows
      else row # upsert_job new_id d rows)"

definition upsertFromScraper :: "prisma \<Rightarrow> ScrapedJob \<Rightarrow> error + prisma" where
  "upsertFromScraper database d =
     (if rejects database (Job_upsert (source d) (externalId d))
      then Inl (PrismaError (Job_upsert (source d) (externalId d)))
      else Inr (database\<lparr>job_table := upsert_job (next_id database) d (job_table database),
                         next_id := Suc (next_id database)\<rparr>))"

definition processJob :: "ScrapedJob \<Rightarrow> prisma \<Rightarrow> error + bool \<times> prisma" where
  "processJob job database =
     (case job_findFirst database (source job) (externalId job) of
        Inl e \<Rightarrow> Inl e
      | Inr existing \<Rightarrow>
          (case upsertFromScraper database job of
             Inl e \<Rightarrow> Inl e
           | Inr database' \<Rightarrow> Inr (existing = None, database')))"

subsection \<open>Run records\<close>

definition scraperRun_create ::
  "prisma \<Rightarrow> string \<Rightarrow> int \<Rightarrow> error + ScraperRun \<times> prisma" where
  "scraperRun_create database src now =
     (if rejects database (ScraperRun_create src) then Inl (PrismaError (ScraperRun_create src))
      else (let run = \<lparr>run_id = next_id database, run_source = src,
                         run_status = ''running'', startedAt = now, completedAt = None,
                         run_jobsFound = None, run_jobsNew = None, run_jobsUpdated = None,
                         errorMessage = None\<rparr>
            in Inr (run, database\<lparr>scraperRun_table := scraperRun_table database @ [run],
                                  next_id := Suc (next_id database)\<rparr>)))"

text \<open>\<open>update\<close> rejects when no row has the id.\<close>

definition scraperRun_update ::
  "prisma \<Rightarrow> nat \<Rightarrow> string \<Rightarrow> (ScraperRun \<Rightarrow> ScraperRun) \<Rightarrow> error + prisma" where
  "scraperRun_update database rid status change =
     (if rejects database (ScraperRun_update rid status)
         \<or> \<not> list_ex (\<lambda>r. run_id r = rid) (scraperRun_table database)
      then Inl (PrismaError (ScraperRun_update rid status))
      else Inr (database\<lparr>scraperRun_table :=
                  map (\<lambda>r. if run_id r = rid then change (r\<lparr>run_status := status\<rparr>) else r)
                      (scraperRun_table database)\<rparr>))"

subsection \<open>runScraper\<close>

text \<open>The loop over the scraped jobs; a job whose processing throws is logged and skipped.\<close>

fun process_jobs :: "ScrapedJob list \<Rightarrow> nat \<Rightarrow> nat \<Rightarrow> prisma \<Rightarrow> nat \<times> nat \<times> prisma" where
  "process_jobs [] new updated database = (new, updated, database)"
| "process_jobs (job # jobs) new updated database =
     (case processJob job database of
        Inr (isNew, database') \<Rightarrow>
          if isNew then process_jobs jobs (Suc new) updated database'
          else process_jobs jobs new (Suc updated) database'
      | Inl e \<Rightarrow> process_jobs jobs new updated database)"

text \<open>
  The \<open>try\<close> block. It returns the state it reached also when it throws, since the
  \<open>catch\<close> block goes on from there.
\<close>

definition runScraper_try ::
  "IScraper \<Rightarrow> ScraperConfig \<Rightarrow> ScraperRun \<Rightarrow> int \<Rightarrow> ScrapersService
     \<Rightarrow> (error + ScraperResult) \<times> ScrapersService" where
  "runScraper_try scraper config run startTime st =
     (let (took, answer) = scrape scraper config;
          st1 = st\<lparr>clock := clock st + int took\<rparr>
      in case answer of
           Inl e \<Rightarrow> (Inl e, st1)
         | Inr jobs \<Rightarrow>
             (let (new, updated, db1) = process_jobs jobs 0 0 (db st1);
                  st2 = st1\<lparr>db := db1\<rparr>;
                  elapsed = clock st2 - startTime
              in case scraperRun_update db1 (run_id run) ''success''
                        (\<lambda>r. r\<lparr>completedAt := Some (clock st2),
                                 run_jobsFound := Some (length jobs),
                                 run_jobsNew := Some new,
                                 run_jobsUpdated := Some updated\<rparr>) of
                   Inl e \<Rightarrow> (Inl e, st2)
                 | Inr db2 \<Rightarrow>
                     (let (flag, hm) =
                            updateSourceHealth (clock st2) (name scraper) True (sourceHealth st2)
                      in (Inr \<lparr>result_source = name scraper, success = True,
                                jobsFound = length jobs, jobsNew = new,
                                jobsUpdated = updated, result_error = None,
                                blocked = None, duration = Some elapsed\<rparr>,
                          st2\<lparr>db := db2, sourceHealth := hm\<rparr>))))"

text \<open>
  The run record is created before the \<open>try\<close>; the \<open>catch\<close> block records the
  failure and reports it to the health tracker.
\<close>

definition runScraper ::
  "IScraper \<Rightarrow> ScraperConfig \<Rightarrow> ScrapersService \<Rightarrow> error + ScraperResult \<times> ScrapersService" where
  "runScraper scraper config st =
     (let startTime = clock st
      in case scraperRun_create (db st) (name scraper) startTime of
           Inl e \<Rightarrow> Inl e
         | Inr (run, db0) \<Rightarrow>
             (case runScraper_try scraper config run startTime (st\<lparr>db := db0\<rparr>) of
                (Inr result, st1) \<Rightarrow> Inr (result, st1)
              | (Inl err, st1) \<Rightarrow>
                  (let message = error_message err;
                       elapsed = clock st1 - startTime
                   in case scraperRun_update (db st1) (run_id run) ''failed''
                             (\<lambda>r. r\<lparr>completedAt := Some (clock st1),
                                      errorMessage := Some message\<rparr>) of
                        Inl e \<Rightarrow> Inl e
                      | Inr db2 \<Rightarrow>
                          (let (flag, hm) =
                                 updateSourceHealth (clock st1) (name scraper) False
                                   (sourceHealth st1)
                           in Inr (\<lparr>result_source = name scraper, success = False,
                                    jobsFound = 0, jobsNew = 0, jobsUpdated = 0,
                                    result_error = Some message, blocked = Some flag,
                                    duration = Some elapsed\<rparr>,
                                   st1\<lparr>db := db2, sourceHealth := hm\<rparr>)))))"

subsection \<open>scrapeAll\<close>

text \<open>The spread \<open>{...baseConfig, ...customConfig}\<close>: a key the caller set wins.\<close>

definition merge_config :: "ScraperConfig \<Rightarrow> PartialConfig \<Rightarrow> ScraperConfig" where
  "merge_config base custom =
     \<lparr>config_keywords =
        (case custom_keywords custom of None \<Rightarrow> config_keywords base | Some k \<Rightarrow> k),
      config_location = keep (custom_location custom) (config_location base),
      locations = keep (custom_locations custom) (locations base),
      remote = keep (custom_remote custom) (remote base),
      experienceYears = keep (custom_experienceYears custom) (experienceYears base),
      config_salaryMin = keep (custom_salaryMin custom) (config_salaryMin base),
      config_salaryCurrency =
        keep (custom_salaryCurrency custom) (config_salaryCurrency base)\<rparr>"

text \<open>
  The candidates for a caller's list of sources: the registry is looked up with the
  lower-cased name, the availability with the name as given.
\<close>

fun select_sources :: "string list \<Rightarrow> ScrapersService \<Rightarrow> IScraper list \<times> ScrapersService" where
  "select_sources [] st = ([], st)"
| "select_sources (src # rest) st =
     (case map_of (scrapers st) (toLowerCase src) of
        None \<Rightarrow> select_sources rest st
      | Some scraper \<Rightarrow>
          (let (available, hm) = isSourceAvailable (clock st) src (sourceHealth st);
               st1 = st\<lparr>sourceHealth := hm\<rparr>
           in if available
              then (let (chosen, st2) = select_sources rest st1 in (scraper # chosen, st2))
              else select_sources rest st1))"

text \<open>The candidates when no source is named: every enabled, available adapter.\<close>

fun select_enabled ::
  "(string \<times> IScraper) list \<Rightarrow> ScrapersService \<Rightarrow> IScraper list \<times> ScrapersService" where
  "select_enabled [] st = ([], st)"
| "select_enabled ((n, scraper) # rest) st =
     (if enabled scraper
      then (let (available, hm) = isSourceAvailable (clock st) n (sourceHealth st);
                st1 = st\<lparr>sourceHealth := hm\<rparr>
            in if available
               then (let (chosen, st2) = select_enabled rest st1 in (scraper # chosen, st2))
               else select_enabled rest st1)
      else select_enabled rest st)"

text \<open>
  One batch, \<open>Promise.all(batch.map(runScraper))\<close>: the runs are taken one after the
  other in batch order (interleavings at \<open>await\<close> are not modelled); a run that rejects
  rejects the batch.
\<close>

fun run_batch ::
  "IScraper list \<Rightarrow> ScraperConfig \<Rightarrow> ScrapersService
     \<Rightarrow> error + ScraperResult list \<times> ScrapersService" where
  "run_batch [] config st = Inr ([], st)"
| "run_batch (scraper # batch) config st =
     (case runScraper scraper config st of
        Inl e \<Rightarrow> Inl e
      | Inr (result, st1) \<Rightarrow>
          (case run_batch batch config st1 of
             Inl e \<Rightarrow> Inl e
           | Inr (rs, st2) \<Rightarrow> Inr (result # rs, st2)))"

definition add_results :: "ScrapeSummary \<Rightarrow> ScraperResult list \<Rightarrow> ScrapeSummary" where
  "add_results summary batchResults =
     foldl (\<lambda>acc result.
              \<lparr>results = results acc @ [result],
               totalJobsNew = totalJobsNew acc + jobsNew result,
               totalJobsUpdated = totalJobsUpdated acc + jobsUpdated result\<rparr>)
           summary batchResults"

function batch_loop ::
  "nat \<Rightarrow> IScraper list \<Rightarrow> ScraperConfig \<Rightarrow> ScrapeSummary \<Rightarrow> ScrapersService
     \<Rightarrow> error + ScrapeSummary \<times> ScrapersService" where
  "batch_loop i scrapersToRun config summary st =
     (if i < length scrapersToRun
      then (case run_batch (take maxConcurrency (drop i scrapersToRun)) config st of
              Inl e \<Rightarrow> Inl e
            | Inr (batchResults, st1) \<Rightarrow>
                batch_loop (i + maxConcurrency) scrapersToRun config
                  (add_results summary batchResults) st1)
      else Inr (summary, st))"
  by pat_completeness auto
termination
  by (relation "measure (\<lambda>(i, scrapersToRun, config, summary, st). length scrapersToRun - i)")
     (auto simp: maxConcurrency_def)

text \<open>The merged configuration, with the default keyword when none is left.\<close>

definition search_config :: "ScraperConfig \<Rightarrow> PartialConfig \<Rightarrow> ScraperConfig" where
  "search_config baseConfig customConfig =
     (let merged = merge_config baseConfig customConfig
      in if length (config_keywords merged) = 0
         then merged\<lparr>config_keywords := [''software engineer'']\<rparr>
         else merged)"

text \<open>Which adapters to run: the caller's sources when it names some, else all enabled.\<close>

definition select_scrapers ::
  "string list option \<Rightarrow> ScrapersService \<Rightarrow> IScraper list \<times> ScrapersService" where
  "select_scrapers sources st =
     (case sources of
        None \<Rightarrow> select_enabled (scrapers st) st
      | Some named \<Rightarrow>
          if length named > 0 then select_sources named st
          else select_enabled (scrapers st) st)"

text \<open>
  \<open>buildSearchConfig\<close> reads the profile and parses its stored JSON; it is not unfolded
  here. Its outcome for the user, a configuration or a thrown error, is the parameter
  \<open>built\<close>.
\<close>

definition scrapeAll ::
  "error + ScraperConfig \<Rightarrow> string list option \<Rightarrow> PartialConfig \<Rightarrow> ScrapersService
     \<Rightarrow> error + ScrapeSummary \<times> ScrapersService" where
  "scrapeAll built sources customConfig st =
     (case built of
        Inl e \<Rightarrow> Inl e
      | Inr baseConfig \<Rightarrow>
          (let config = search_config baseConfig customConfig;
               (scrapersToRun, st1) = select_scrapers sources st
           in if length scrapersToRun = 0
              then Inr (\<lparr>results = [], totalJobsNew = 0, totalJobsUpdated = 0\<rparr>, st1)
              else batch_loop 0 scrapersToRun config
                     \<lparr>results = [], totalJobsNew = 0, totalJobsUpdated = 0\<rparr> st1))"

section \<open>Notions used to state the properties\<close>




text \<open>
  The Levenshtein recurrence on prefixes: \<open>lev a b i j\<close> is the distance between the
  first \<open>i\<close> characters of \<open>b\<close> and the first \<open>j\<close> characters of \<open>a\<close>.
\<close>

fun lev :: "string \<Rightarrow> string \<Rightarrow> nat \<Rightarrow> nat \<Rightarrow> nat" where
  "lev a b 0 j = j"
| "lev a b (Suc i) 0 = Suc i"
| "lev a b (Suc i) (Suc j) =
     (if b ! i = a ! j then lev a b i j
      else Suc (min (lev a b i j) (min (lev a b (Suc i) j) (lev a b i (Suc j)))))"

definition levenshtein :: "string \<Rightarrow> string \<Rightarrow> nat" where
  "levenshtein a b = lev a b (length b) (length a)"

text \<open>
  Skill matching as the specification words it: a required skill, once normalised,
  matches when it equals a normalised user skill, when one of its synonyms in the table
  is a user skill, or when some user skill contains it, is contained in it, or is within
  Levenshtein distance 2 of it.
\<close>

definition claimed_match :: "string \<Rightarrow> string list \<Rightarrow> bool" where
  "claimed_match skill userSkillNames =
     (skill \<in> set userSkillNames
      \<or> list_ex (\<lambda>syn. syn \<in> set userSkillNames)
           (case map_of SKILL_SYNONYMS skill of Some syns \<Rightarrow> syns | None \<Rightarrow> [])
      \<or> list_ex (\<lambda>userSkill. sublist skill userSkill \<or> sublist userSkill skill
                      \<or> levenshtein skill userSkill \<le> 2) userSkillNames)"

definition claimed_skillMatch ::
  "runtime \<Rightarrow> 'a Job_scheme \<Rightarrow> Skill list \<Rightarrow> rat \<times> string list \<times> string list" where
  "claimed_skillMatch rt job userSkills =
     (let required = parseSkillsString rt (skillsRequired job);
          names = map (\<lambda>s. normalizeSkill (skill_name s)) userSkills;
          matched = filter (\<lambda>r. claimed_match (normalizeSkill r) names) required;
          missing = filter (\<lambda>r. \<not> claimed_match (normalizeSkill r) names) required
      in if required = [] then (75, [], [])
         else (Math_round (100 * of_nat (length matched) / of_nat (length required)),
               matched, missing))"

text \<open>A required skill whose normalised name is inherited by the synonym table's object,
  and is not itself one of the user's skills.\<close>

definition hits_inherited :: "string list \<Rightarrow> string \<Rightarrow> bool" where
  "hits_inherited userSkillNames required =
     (normalizeSkill required \<in> set Object_prototype_properties
      \<and> normalizeSkill required \<notin> set userSkillNames)"

text \<open>Failed runs of one source recorded at the given times, with the flag of each.\<close>

fun record_failures ::
  "int list \<Rightarrow> string \<Rightarrow> (string \<times> SourceHealth) list
     \<Rightarrow> bool list \<times> (string \<times> SourceHealth) list" where
  "record_failures [] src hm = ([], hm)"
| "record_failures (t # ts) src hm =
     (let (flag, hm1) = updateSourceHealth t src False hm;
          (flags, hm2) = record_failures ts src hm1
      in (flag # flags, hm2))"

text \<open>The number of stored jobs with a given natural key, and the unique constraint.\<close>

definition stored :: "string \<Rightarrow> string \<Rightarrow> prisma \<Rightarrow> nat" where
  "stored src ext database =
     length (filter (\<lambda>row. source row = src \<and> externalId row = ext) (job_table database))"

definition unique_keys :: "prisma \<Rightarrow> bool" where
  "unique_keys database =
     distinct (map (\<lambda>row. (source row, externalId row)) (job_table database))"

text \<open>No write of a run record is rejected.\<close>

definition run_records_writable :: "prisma \<Rightarrow> bool" where
  "run_records_writable database =
     ((\<forall>src. \<not> rejects database (ScraperRun_create src))
      \<and> (\<forall>rid status. \<not> rejects database (ScraperRun_update rid status)))"

text \<open>Every key of the health map is its own lower-case form.\<close>

definition health_keys_lowercase :: "ScrapersService \<Rightarrow> bool" where
  "health_keys_lowercase st = list_all (\<lambda>k. toLowerCase k = k) (map fst (sourceHealth st))"

text \<open>
  What a run of one adapter must report: a failed result with the error message and zero
  counts when the adapter throws, a successful one counting the jobs when it returns.
\<close>

definition reports :: "ScraperConfig \<Rightarrow> IScraper \<Rightarrow> ScraperResult \<Rightarrow> bool" where
  "reports config scraper result =
     (result_source result = name scraper
      \<and> (case snd (scrape scraper config) of
           Inl e \<Rightarrow> \<not> success result \<and> result_error result = Some (error_message e)
                    \<and> jobsFound result = 0 \<and> jobsNew result = 0 \<and> jobsUpdated result = 0
         | Inr jobs \<Rightarrow> success result \<and> jobsFound result = length jobs))"

section \<open>Inputs used in the examples\<close>

text \<open>
  A runtime for the examples: none of the texts used below is JSON, so \<open>JSON.parse\<close>
  throws on them; numbers are written in decimal, with one digit after the point when
  they are not whole.
\<close>

fun show_nat :: "nat \<Rightarrow> string" where
  "show_nat n =
     (if n < 10 then [''0123456789'' ! n]
      else show_nat (n div 10) @ [''0123456789'' ! (n mod 10)])"

definition example_runtime :: runtime where
  "example_runtime =
     \<lparr>JSON_parse = (\<lambda>s. None),
      Number_toString =
        (\<lambda>x. (if x < 0 then ''-'' else []) @ show_nat (nat \<lfloor>\<bar>x\<bar>\<rfloor>)
              @ (if of_int \<lfloor>x\<rfloor> = x then []
                 else ''.'' @ show_nat (nat (\<lfloor>\<bar>x\<bar> * 10\<rfloor> mod 10))))\<rparr>"

definition example_job :: Job where
  "example_job =
     \<lparr>externalId = ''42'', source = ''linkedin'', sourceUrl = ''https://example.org/42'',
      title = ''Backend Engineer'', company = ''Acme'', location = Some ''Bangalore'',
      isRemote = Some False, description = None, requirements = None,
      responsibilities = None, skillsRequired = Some ''Python, Django'',
      salaryMin = None, salaryMax = None, salaryCurrency = None,
      experienceMin = Some 5, experienceMax = None, employmentType = None,
      postedDate = None, companyLogoUrl = None, benefits = None, industry = None,
      companySize = None, job_id = 1\<rparr>"

text \<open>User \<open>u1\<close> knows Python and has held one position since January 2020.\<close>

definition example_db :: prisma where
  "example_db =
     \<lparr>skill_table = [\<lparr>skill_userId = ''u1'', skill_name = ''Python''\<rparr>],
      jobTarget_table = [],
      experience_table =
        [\<lparr>exp_userId = ''u1'', startDate = Some (ValidDate 2020 0), endDate = None,
          isCurrent = True\<rparr>],
      jobScore_table = [], job_table = [], scraperRun_table = [], next_id = 2,
      rejects = (\<lambda>c. False)\<rparr>"

text \<open>A posting whose only required skill is called "constructor".\<close>

definition constructor_job :: Job where
  "constructor_job = example_job\<lparr>skillsRequired := Some ''constructor''\<rparr>"

text \<open>
  Portals for the examples: LinkedIn throws, Naukri returns two postings, the others
  return none.
\<close>

definition posting :: "string \<Rightarrow> string \<Rightarrow> ScrapedJob" where
  "posting src ext =
     \<lparr>externalId = ext, source = src, sourceUrl = ''https://example.org/'' @ ext,
      title = ''Engineer'', company = ''Acme'', location = None, isRemote = None,
      description = None, requirements = None, responsibilities = None,
      skillsRequired = None, salaryMin = None, salaryMax = None, salaryCurrency = None,
      experienceMin = None, experienceMax = None, employmentType = None,
      postedDate = None, companyLogoUrl = None, benefits = None, industry = None,
      companySize = None\<rparr>"

definition example_portal :: "string \<Rightarrow> ScraperConfig \<Rightarrow> nat \<times> (error + ScrapedJob list)" where
  "example_portal n config =
     (if n = ''linkedin'' then (1500, Inl (ScrapeError ''Request failed with status 429''))
      else if n = ''naukri'' then (900, Inr [posting ''naukri'' ''1'', posting ''naukri'' ''2''])
      else (700, Inr []))"

definition example_config :: ScraperConfig where
  "example_config =
     \<lparr>config_keywords = [''backend engineer''], config_location = None, locations = Some [],
      remote = Some False, experienceYears = Some 4, config_salaryMin = None,
      config_salaryCurrency = Some ''INR''\<rparr>"

definition no_overrides :: PartialConfig where
  "no_overrides =
     \<lparr>custom_keywords = None, custom_location = None, custom_locations = None,
      custom_remote = None, custom_experienceYears = None, custom_salaryMin = None,
      custom_salaryCurrency = None\<rparr>"

definition example_service :: ScrapersService where
  "example_service = initializeScrapers example_portal example_db 0"

text \<open>
  LinkedIn after three failed runs at time 0, then disabled by the operator, looked at
  again when the block window has just elapsed.
\<close>

definition disabled_blocked_service :: ScrapersService where
  "disabled_blocked_service =
     (let blocked = example_service\<lparr>sourceHealth :=
                      snd (record_failures [0, 0, 0] ''linkedin''
                             (sourceHealth example_service))\<rparr>
      in (snd (setSourceEnabled ''linkedin'' False blocked))\<lparr>clock := blockDuration\<rparr>)"

text \<open>A database that rejects the storing of one Naukri posting, and one that rejects
  marking a run as failed.\<close>

definition one_bad_posting_db :: prisma where
  "one_bad_posting_db = example_db\<lparr>rejects := (\<lambda>c. c = Job_upsert ''naukri'' ''2'')\<rparr>"


definition portal_scraper :: "string \<Rightarrow> IScraper" where
  "portal_scraper n = \<lparr>name = n, enabled = True, scrape = example_portal n\<rparr>"

definition one_bad_posting_service :: ScrapersService where
  "one_bad_posting_service = initializeScrapers example_portal one_bad_posting_db 0"


section \<open>Properties of the scoring service\<close>

subsection \<open>Ranges of the component scores\<close>
















subsection \<open>Failure policy of scoreJob\<close>

text \<open>The errors the \<open>try\<close> block can raise: a rejected database call, or the skill match.\<close>

lemma scoreJob_try_error_iff:
  "(\<exists>e. scoreJob_try rt now userId job database = Inl e) \<longleftrightarrow>
     rejects database (Skill_findMany userId)
     \<or> rejects database (JobTarget_findUnique userId)
     \<or> rejects database (Experience_findMany userId)
     \<or> (\<exists>e. calculateSkillMatch rt job
               (filter (\<lambda>s. skill_userId s = userId) (skill_table database)) = Inl e)
     \<or> rejects database (JobScore_upsert (job_id job) userId)"
  unfolding scoreJob_try_def computed_scores_def skill_findMany_def jobTarget_findUnique_def
    experience_findMany_def jobScore_upsert_def Let_def
  by (auto split: sum.splits prod.splits)

lemma scoreNewJobs_loop_count:
  "fst (scoreNewJobs_loop rt now userId jobs scored database) = scored + length jobs"
  by (induction jobs arbitrary: scored database) (simp_all add: case_prod_beta)

lemma scoreJobs_loop_ids:
  "map fst (fst (scoreJobs_loop rt now userId jobs database)) = map job_id jobs"
  by (induction jobs arbitrary: database) (simp_all add: case_prod_beta)

text \<open>
  Claim C2. \<open>scoreJob\<close> always returns a breakdown. Whenever its \<open>try\<close> block raises an
  error, the result has all six scores equal to 50, no matched and no missing skills,
  the three analyses equal to "Unable to analyze" and an error note in \<open>cons\<close>, and the
  database is left as it was; a batch run therefore scores every job it was given.
\<close>

theorem scoreJob_neutral_on_internal_error:
  assumes "scoreJob_try rt now userId job database = Inl e"
  shows "overallScore (fst (scoreJob rt now userId job database)) = 50
     \<and> semanticScore (fst (scoreJob rt now userId job database)) = 50
     \<and> skillMatchScore (fst (scoreJob rt now userId job database)) = 50
     \<and> experienceMatchScore (fst (scoreJob rt now userId job database)) = 50
     \<and> salaryMatchScore (fst (scoreJob rt now userId job database)) = 50
     \<and> locationMatchScore (fst (scoreJob rt now userId job database)) = 50
     \<and> matchedSkills (fst (scoreJob rt now userId job database)) = []
     \<and> missingSkills (fst (scoreJob rt now userId job database)) = []
     \<and> experienceAnalysis (breakdown (fst (scoreJob rt now userId job database)))
           = ''Unable to analyze''
     \<and> salaryAnalysis (breakdown (fst (scoreJob rt now userId job database)))
           = ''Unable to analyze''
     \<and> locationAnalysis (breakdown (fst (scoreJob rt now userId job database)))
           = ''Unable to analyze''
     \<and> cons (breakdown (fst (scoreJob rt now userId job database)))
           = [''Error occurred during scoring'']
     \<and> snd (scoreJob rt now userId job database) = database
     \<and> fst (scoreNewJobs_loop rt now userId (job # jobs) 0 database) = Suc (length jobs)
     \<and> map fst (fst (scoreJobs_loop rt now userId (job # jobs) database))
           = map job_id (job # jobs)"
proof -
  from assms have "scoreJob rt now userId job database = (default_scores, database)"
    by (simp add: scoreJob_def)
  then show ?thesis
    using scoreNewJobs_loop_count[of rt now userId "job # jobs" 0 database]
      scoreJobs_loop_ids[of rt now userId "job # jobs" database]
    by (simp add: default_scores_def)
qed

theorem scoreJob_neutral_on_internal_error_example:
  "scoreJob_try example_runtime (2024, 0) ''u1'' constructor_job example_db
     = Inl (TypeError ''synonyms is not iterable'')
   \<and> overallScore (fst (scoreJob example_runtime (2024, 0) ''u1'' constructor_job example_db))
       = 50
   \<and> cons (breakdown (fst (scoreJob example_runtime (2024, 0) ''u1'' constructor_job
                            example_db)))
       = [''Error occurred during scoring'']
   \<and> fst (scoreNewJobs_loop example_runtime (2024, 0) ''u1'' [constructor_job, example_job] 0
            example_db) = 2"
proof -
  have "(case scoreJob_try example_runtime (2024, 0) ''u1'' constructor_job example_db of
           Inl e \<Rightarrow> Some e | Inr p \<Rightarrow> None)
          = Some (TypeError ''synonyms is not iterable'')"
    by code_simp
  then have h: "scoreJob_try example_runtime (2024, 0) ''u1'' constructor_job example_db
             = Inl (TypeError ''synonyms is not iterable'')"
    by (simp split: sum.splits)
  from scoreJob_neutral_on_internal_error[OF h, of "[example_job]"] h
  show ?thesis by simp
qed

subsection \<open>Skill matching\<close>

lemma inherited_names_not_own:
  "list_all (\<lambda>k. map_of SKILL_SYNONYMS k = None) Object_prototype_properties"
  by code_simp

lemma SKILL_SYNONYMS_get_Inherited:
  "SKILL_SYNONYMS_get k = Inherited \<longleftrightarrow> k \<in> set Object_prototype_properties"
proof -
  have "k \<in> set Object_prototype_properties \<Longrightarrow> map_of SKILL_SYNONYMS k = None"
    using inherited_names_not_own by (simp add: list_all_iff)
  then show ?thesis
    by (auto simp: SKILL_SYNONYMS_get_def split: option.splits)
qed

text \<open>The matrix the code fills holds the values of the Levenshtein recurrence.\<close>

lemma lev_zero: "lev a b i 0 = i"
  by (cases i) simp_all

lemma lev_row_recurrence:
  assumes "i < length b" and "j \<le> length a"
  shows "lev_row (b ! i) (drop j a) (map (lev a b i) [j..<Suc (length a)]) (lev a b (Suc i) j)
     = map (lev a b (Suc i)) [Suc j..<Suc (length a)]"
  using assms(2)
proof (induction "length a - j" arbitrary: j)
  case 0
  then have "j = length a" by simp
  then show ?case by simp
next
  case (Suc k)
  then have lt: "j < length a" by simp
  then have cells: "drop j a = a ! j # drop (Suc j) a"
    by (simp add: Cons_nth_drop_Suc)
  have above: "map (lev a b i) [j..<Suc (length a)]
      = lev a b i j # map (lev a b i) [Suc j..<Suc (length a)]"
    using lt by (simp add: upt_conv_Cons del: upt_Suc)
  have above': "map (lev a b i) [Suc j..<Suc (length a)]
      = lev a b i (Suc j) # map (lev a b i) [Suc (Suc j)..<Suc (length a)]"
    using lt by (simp add: upt_conv_Cons del: upt_Suc)
  have cell: "(if b ! i = a ! j then lev a b i j
               else min (lev a b i j + 1) (min (lev a b (Suc i) j + 1) (lev a b i (Suc j) + 1)))
      = lev a b (Suc i) (Suc j)"
    by simp
  have rest: "lev_row (b ! i) (drop (Suc j) a) (map (lev a b i) [Suc j..<Suc (length a)])
        (lev a b (Suc i) (Suc j))
      = map (lev a b (Suc i)) [Suc (Suc j)..<Suc (length a)]"
    using Suc.hyps(1)[of "Suc j"] Suc.hyps(2) lt by simp
  have "lev_row (b ! i) (drop j a) (map (lev a b i) [j..<Suc (length a)]) (lev a b (Suc i) j)
      = lev a b (Suc i) (Suc j)
          # lev_row (b ! i) (drop (Suc j) a) (map (lev a b i) [Suc j..<Suc (length a)])
              (lev a b (Suc i) (Suc j))"
    unfolding cells above above' using cell by (simp add: Let_def)
  also have "\<dots> = map (lev a b (Suc i)) [Suc j..<Suc (length a)]"
    unfolding rest using lt by (simp add: upt_conv_Cons del: upt_Suc)
  finally show ?case .
qed

lemma lev_rows_recurrence:
  assumes "i \<le> length b"
  shows "lev_rows a (drop i b) i (map (lev a b i) [0..<Suc (length a)])
     = map (lev a b (length b)) [0..<Suc (length a)]"
  using assms
proof (induction "length b - i" arbitrary: i)
  case 0
  then have "i = length b" by simp
  then show ?case by simp
next
  case (Suc k)
  then have lt: "i < length b" by simp
  then have chars: "drop i b = b ! i # drop (Suc i) b"
    by (simp add: Cons_nth_drop_Suc)
  have row: "Suc i # lev_row (b ! i) a (map (lev a b i) [0..<Suc (length a)]) (Suc i)
      = map (lev a b (Suc i)) [0..<Suc (length a)]"
    using lev_row_recurrence[OF lt, of 0 a] by (simp add: upt_conv_Cons del: upt_Suc)
  have "lev_rows a (drop i b) i (map (lev a b i) [0..<Suc (length a)])
      = lev_rows a (drop (Suc i) b) (Suc i) (map (lev a b (Suc i)) [0..<Suc (length a)])"
    unfolding chars using row by simp
  also have "\<dots> = map (lev a b (length b)) [0..<Suc (length a)]"
    using Suc.hyps(1)[of "Suc i"] Suc.hyps(2) lt by simp
  finally show ?case .
qed

lemma levenshtein_code [code]: "levenshtein a b = levenshteinDistance a b"
proof -
  have "last (lev_rows a b 0 [0..<Suc (length a)]) = lev a b (length b) (length a)"
  proof -
    have "map (lev a b 0) [0..<Suc (length a)] = [0..<Suc (length a)]"
      by (simp add: map_idI del: upt_Suc)
    with lev_rows_recurrence[of 0 b a]
    have "lev_rows a b 0 [0..<Suc (length a)] = map (lev a b (length b)) [0..<Suc (length a)]"
      by simp
    then show ?thesis by simp
  qed
  then show ?thesis
    by (auto simp: levenshtein_def levenshteinDistance_def lev_zero)
qed

lemma includes_str_sublist: "includes_str hay needle \<longleftrightarrow> sublist needle hay"
  by (induction hay) (simp_all add: sublist_Cons_right)

lemma fuzzy_claimed:
  "fuzzy skill = (\<lambda>userSkill. sublist skill userSkill \<or> sublist userSkill skill
                     \<or> levenshtein skill userSkill \<le> 2)"
  by (rule ext) (simp add: fuzzy_def includes_str_sublist levenshtein_code)

lemma skillMatches_claimed:
  assumes "skill \<in> set us \<or> skill \<notin> set Object_prototype_properties"
  shows "skillMatches skill us = Inr (claimed_match skill us)"
proof (cases "skill \<in> set us")
  case True
  then show ?thesis by (simp add: skillMatches_def claimed_match_def)
next
  case False
  with assms have "SKILL_SYNONYMS_get skill \<noteq> Inherited"
    by (simp add: SKILL_SYNONYMS_get_Inherited)
  with False show ?thesis
    by (auto simp: skillMatches_def claimed_match_def SKILL_SYNONYMS_get_def
               fuzzy_claimed[symmetric]
             split: option.splits property.splits if_splits)
qed

lemma match_loop_claimed:
  assumes "\<not> list_ex (hits_inherited us) required"
  shows "match_loop required us matched missing
     = Inr (matched @ filter (\<lambda>r. claimed_match (normalizeSkill r) us) required,
            missing @ filter (\<lambda>r. \<not> claimed_match (normalizeSkill r) us) required)"
  using assms
proof (induction required arbitrary: matched missing)
  case Nil
  then show ?case by simp
next
  case (Cons r rest)
  from Cons.prems have "normalizeSkill r \<in> set us
      \<or> normalizeSkill r \<notin> set Object_prototype_properties"
    by (auto simp: hits_inherited_def)
  from skillMatches_claimed[OF this] Cons show ?case by simp
qed

text \<open>
  Away from the names a plain object inherits, the computed skill match is the one the
  specification describes.
\<close>

lemma calculateSkillMatch_claimed:
  assumes "\<not> list_ex (hits_inherited (map (\<lambda>s. normalizeSkill (skill_name s)) userSkills))
               (parseSkillsString rt (skillsRequired job))"
  shows "calculateSkillMatch rt job userSkills = Inr (claimed_skillMatch rt job userSkills)"
  using match_loop_claimed[OF assms, of "[]" "[]"]
  by (simp add: calculateSkillMatch_def claimed_skillMatch_def Let_def mult.commute)

lemma claimed_skillMatch_partition:
  "claimed_skillMatch rt job userSkills = (s, matched, missing) \<Longrightarrow>
     parseSkillsString rt (skillsRequired job) \<noteq> [] \<Longrightarrow>
     set matched \<union> set missing = set (parseSkillsString rt (skillsRequired job))
     \<and> set matched \<inter> set missing = {}
     \<and> length matched + length missing = length (parseSkillsString rt (skillsRequired job))"
  by (auto simp: claimed_skillMatch_def Let_def sum_length_filter_compl)

text \<open>The scenario of the specification: Python against Python and Django.\<close>

lemma calculateSkillMatch_python_django:
  "calculateSkillMatch example_runtime example_job
     [\<lparr>skill_userId = ''u1'', skill_name = ''Python''\<rparr>]
   = Inr (50, [''Python''], [''Django''])"
  by code_simp

text \<open>
  Claim C6, at the posting that requires the skill "constructor" and a user who knows
  Python. The specification's rule gives score 0 with "constructor" missing. The code
  reads \<open>SKILL_SYNONYMS['constructor']\<close>, gets the inherited \<open>Object\<close> function instead
  of a synonym list, and throws when it iterates over it: there is no skill match, and
  \<open>scoreJob\<close> reports the neutral skill score 50.
\<close>

theorem calculateSkillMatch_throws_on_inherited_name:
  "calculateSkillMatch example_runtime constructor_job
     [\<lparr>skill_userId = ''u1'', skill_name = ''Python''\<rparr>]
     = Inl (TypeError ''synonyms is not iterable'')
   \<and> claimed_skillMatch example_runtime constructor_job
       [\<lparr>skill_userId = ''u1'', skill_name = ''Python''\<rparr>]
     = (0, [], [''constructor''])
   \<and> skillMatchScore (fst (scoreJob example_runtime (2024, 0) ''u1'' constructor_job example_db))
     = 50"
  by code_simp

subsection \<open>What scoreJob reads and writes\<close>







section \<open>Properties of the scraper orchestration service\<close>

subsection \<open>Source health\<close>

lemma failed_run_step:
  assumes "map_of hm src = Some h"
  shows "updateSourceHealth t src False hm
     = (if Suc (consecutiveFailures h) \<ge> 3
        then (True, AList.update src
                      (h\<lparr>consecutiveFailures := Suc (consecutiveFailures h),
                         lastRun := Some t, isBlocked := True, blockedAt := Some t\<rparr>) hm)
        else (False, AList.update src
                       (h\<lparr>consecutiveFailures := Suc (consecutiveFailures h),
                          lastRun := Some t\<rparr>) hm))"
  using assms by (simp add: updateSourceHealth_def maxConsecutiveFailures_def Let_def)

lemma three_failures:
  assumes "map_of hm src = Some h" and "consecutiveFailures h = 0"
  shows "fst (record_failures [ta, tb, tc] src hm) = [False, False, True]"
    and "map_of (snd (record_failures [ta] src hm)) src
          = Some (h\<lparr>consecutiveFailures := 1, lastRun := Some ta\<rparr>)"
    and "map_of (snd (record_failures [ta, tb] src hm)) src
          = Some (h\<lparr>consecutiveFailures := 2, lastRun := Some tb\<rparr>)"
    and "map_of (snd (record_failures [ta, tb, tc] src hm)) src
          = Some (h\<lparr>consecutiveFailures := 3, lastRun := Some tc, isBlocked := True,
                    blockedAt := Some tc\<rparr>)"
  using assms by (simp_all add: failed_run_step update_conv')

lemma available_when_unblocked:
  assumes "map_of hm src = Some h" and "\<not> isBlocked h"
  shows "isSourceAvailable now src hm = (health_enabled h, hm)"
  using assms by (simp add: isSourceAvailable_def)

lemma unavailable_inside_window:
  assumes "map_of hm src = Some h" and "isBlocked h" and "blockedAt h = Some t"
    and "now - t < blockDuration"
  shows "isSourceAvailable now src hm = (False, hm)"
  using assms by (simp add: isSourceAvailable_def)

lemma available_after_window:
  assumes "map_of hm src = Some h" and "isBlocked h" and "blockedAt h = Some t"
    and "now - t \<ge> blockDuration"
  shows "isSourceAvailable now src hm
     = (True, AList.update src
                (h\<lparr>isBlocked := False, blockedAt := None, consecutiveFailures := 0\<rparr>) hm)"
  using assms by (simp add: isSourceAvailable_def)

lemma unblockSource_resets:
  assumes "map_of hm src = Some h"
  shows "unblockSource src hm
     = (True, AList.update src
                (h\<lparr>isBlocked := False, blockedAt := None, consecutiveFailures := 0\<rparr>) hm)"
  using assms by (simp add: unblockSource_def)

text \<open>
  Claim C3. Take a source whose health is enabled, not blocked, with no consecutive
  failures, and record three failed runs at times \<open>ta\<close>, \<open>tb\<close>, \<open>tc\<close>. The new-block
  flag is returned by the third run only; after the first and the second the source is
  still available; after the third it is blocked with \<open>blockedAt = tc\<close>. From then on
  the availability check answers no and changes nothing while less than the block
  duration has passed since \<open>tc\<close>, so a named request for the source selects nothing;
  once the block duration has passed the check answers yes and resets the failure count
  and \<open>blockedAt\<close>; a manual unblock performs the same reset and makes the source
  available at once.
\<close>

theorem third_failure_blocks_until_window_or_unblock:
  assumes "map_of hm src = Some h"
    and "health_enabled h" and "\<not> isBlocked h" and "consecutiveFailures h = 0"
  shows "fst (record_failures [ta, tb, tc] src hm) = [False, False, True]
    \<and> fst (isSourceAvailable now src (snd (record_failures [ta] src hm)))
    \<and> fst (isSourceAvailable now src (snd (record_failures [ta, tb] src hm)))
    \<and> map_of (snd (record_failures [ta, tb, tc] src hm)) src
        = Some (h\<lparr>consecutiveFailures := 3, lastRun := Some tc, isBlocked := True,
                  blockedAt := Some tc\<rparr>)
    \<and> (early - tc < blockDuration \<longrightarrow>
         isSourceAvailable early src (snd (record_failures [ta, tb, tc] src hm))
           = (False, snd (record_failures [ta, tb, tc] src hm)))
    \<and> (clock st - tc < blockDuration
         \<and> sourceHealth st = snd (record_failures [ta, tb, tc] src hm) \<longrightarrow>
         select_sources [src] st = ([], st))
    \<and> (late - tc \<ge> blockDuration \<longrightarrow>
         fst (isSourceAvailable late src (snd (record_failures [ta, tb, tc] src hm)))
         \<and> map_of (snd (isSourceAvailable late src
                          (snd (record_failures [ta, tb, tc] src hm)))) src
             = Some (h\<lparr>consecutiveFailures := 0, lastRun := Some tc, isBlocked := False,
                       blockedAt := None\<rparr>))
    \<and> fst (unblockSource src (snd (record_failures [ta, tb, tc] src hm)))
    \<and> map_of (snd (unblockSource src (snd (record_failures [ta, tb, tc] src hm)))) src
        = Some (h\<lparr>consecutiveFailures := 0, lastRun := Some tc, isBlocked := False,
                  blockedAt := None\<rparr>)
    \<and> fst (isSourceAvailable now src
              (snd (unblockSource src (snd (record_failures [ta, tb, tc] src hm)))))"
proof -
  let ?hm3 = "snd (record_failures [ta, tb, tc] src hm)"
  let ?h3 = "h\<lparr>consecutiveFailures := 3, lastRun := Some tc, isBlocked := True,
               blockedAt := Some tc\<rparr>"
  note f = three_failures[OF assms(1) assms(4)]
  have a1: "fst (isSourceAvailable now src (snd (record_failures [ta] src hm)))"
    using available_when_unblocked[OF f(2)] assms(2,3) by simp
  have a2: "fst (isSourceAvailable now src (snd (record_failures [ta, tb] src hm)))"
    using available_when_unblocked[OF f(3)] assms(2,3) by simp
  have w: "early - tc < blockDuration \<Longrightarrow> isSourceAvailable early src ?hm3 = (False, ?hm3)"
    for early
    using unavailable_inside_window[OF f(4)] by simp
  have sel: "clock st - tc < blockDuration \<Longrightarrow> sourceHealth st = ?hm3 \<Longrightarrow>
      select_sources [src] st = ([], st)"
    using w[of "clock st"] by (simp split: option.splits)
  have l: "late - tc \<ge> blockDuration \<Longrightarrow>
      isSourceAvailable late src ?hm3
        = (True, AList.update src
             (?h3\<lparr>isBlocked := False, blockedAt := None, consecutiveFailures := 0\<rparr>) ?hm3)"
    using available_after_window[OF f(4)] by simp
  have u: "unblockSource src ?hm3
      = (True, AList.update src
           (?h3\<lparr>isBlocked := False, blockedAt := None, consecutiveFailures := 0\<rparr>) ?hm3)"
    by (rule unblockSource_resets[OF f(4)])
  have a4: "fst (isSourceAvailable now src (snd (unblockSource src ?hm3)))"
    unfolding u using assms(2) by (simp add: isSourceAvailable_def update_conv')
  show ?thesis
    using f(1) a1 a2 f(4) w sel l u a4 by (simp add: update_conv')
qed

theorem third_failure_blocks_until_window_or_unblock_example:
  "fst (record_failures [1000, 2000, 3000] ''linkedin'' (sourceHealth example_service))
     = [False, False, True]
   \<and> isSourceAvailable (3000 + 3600000) ''linkedin''
       (snd (record_failures [1000, 2000, 3000] ''linkedin'' (sourceHealth example_service)))
     = (False, snd (record_failures [1000, 2000, 3000] ''linkedin''
                      (sourceHealth example_service)))
   \<and> fst (isSourceAvailable (3000 + blockDuration) ''linkedin''
            (snd (record_failures [1000, 2000, 3000] ''linkedin''
                    (sourceHealth example_service))))"
proof -
  let ?h = "\<lparr>health_source = ''linkedin'', health_enabled = True, isBlocked = False,
             blockedAt = None, consecutiveFailures = 0, lastSuccess = None,
             lastRun = None\<rparr>"
  have h: "map_of (sourceHealth example_service) ''linkedin'' = Some ?h"
    by (simp add: example_service_def initializeScrapers_def scraper_names_def)
  have e: "(3000 + 3600000 :: int) - 3000 < blockDuration" by (simp add: blockDuration_def)
  have l: "(3000 + blockDuration) - 3000 \<ge> blockDuration" by simp
  from third_failure_blocks_until_window_or_unblock[OF h, where ta=1000 and tb=2000
         and tc=3000 and now=0 and early="3000 + 3600000" and st=example_service
         and late="3000 + blockDuration"] e l
  show ?thesis by simp
qed

subsection \<open>Upsert by source and external id\<close>

lemma create_job_key:
  "source (create_job i d) = source d" "externalId (create_job i d) = externalId d"
  by (simp_all add: create_job_def ScrapedJob.defs Job.defs)

lemma update_job_key:
  "source (update_job row d) = source d" "externalId (update_job row d) = externalId d"
  by (simp_all add: update_job_def)

lemma upsert_job_keys:
  "map (\<lambda>row. (source row, externalId row)) (upsert_job i d rows)
     = (if (source d, externalId d) \<in> set (map (\<lambda>row. (source row, externalId row)) rows)
        then map (\<lambda>row. (source row, externalId row)) rows
        else map (\<lambda>row. (source row, externalId row)) rows @ [(source d, externalId d)])"
  by (induction rows) (auto simp: create_job_key update_job_key)

lemma find_key_None_iff:
  "find (\<lambda>j. source j = src \<and> externalId j = ext) rows = None
     \<longleftrightarrow> (src, ext) \<notin> set (map (\<lambda>row. (source row, externalId row)) rows)"
  by (induction rows) auto

lemma count_key:
  "length (filter (\<lambda>row. source row = src \<and> externalId row = ext) rows)
     = count_list (map (\<lambda>row. (source row, externalId row)) rows) (src, ext)"
  by (induction rows) auto

lemma count_list_distinct:
  "distinct ks \<Longrightarrow> k \<in> set ks \<Longrightarrow> count_list ks k = 1"
  by (induction ks) auto

lemma processJob_Inr:
  assumes "processJob job database = Inr (isNew, database')"
  shows "isNew \<longleftrightarrow> (source job, externalId job)
            \<notin> set (map (\<lambda>row. (source row, externalId row)) (job_table database))"
    and "job_table database'
           = upsert_job (next_id database) job (job_table database)"
    and "rejects database' = rejects database"
    and "scraperRun_table database' = scraperRun_table database"
  using assms
  by (auto simp: processJob_def job_findFirst_def upsertFromScraper_def find_key_None_iff
           split: if_splits)

lemma processJob_Inl:
  assumes "processJob job database = Inl e"
  shows "rejects database (Job_findFirst (source job) (externalId job))
         \<or> rejects database (Job_upsert (source job) (externalId job))"
  using assms
  by (auto simp: processJob_def job_findFirst_def upsertFromScraper_def split: if_splits)

text \<open>
  Claim C7. On a job table that respects the unique key, processing a posting and then
  processing a posting with the same source and external id again leaves exactly one
  stored job with that key: the second call adds no row, reports \<open>isNew = false\<close>, and
  the run counts it as updated.
\<close>

theorem processJob_twice_stores_one_job:
  assumes "unique_keys database"
    and "processJob job database = Inr (first, database1)"
    and "processJob again database1 = Inr (second, database2)"
    and "source again = source job" and "externalId again = externalId job"
  shows "\<not> second
    \<and> stored (source job) (externalId job) database2 = 1
    \<and> length (job_table database2) = length (job_table database1)
    \<and> unique_keys database2
    \<and> fst (process_jobs [again] new updated database1) = new
    \<and> fst (snd (process_jobs [again] new updated database1)) = Suc updated"
proof -
  let ?key = "\<lambda>row. (source row, externalId row)"
  let ?k = "(source job, externalId job)"
  note p1 = processJob_Inr[OF assms(2)]
  note p2 = processJob_Inr[OF assms(3)]
  have keys1: "map ?key (job_table database1)
      = (if ?k \<in> set (map ?key (job_table database)) then map ?key (job_table database)
         else map ?key (job_table database) @ [?k])"
    unfolding p1(2) by (rule upsert_job_keys)
  then have in1: "?k \<in> set (map ?key (job_table database1))"
    by (simp split: if_splits)
  have d1: "distinct (map ?key (job_table database1))"
    using assms(1) keys1 unfolding unique_keys_def by (simp split: if_splits)
  have keys2: "map ?key (job_table database2) = map ?key (job_table database1)"
    unfolding p2(2) using upsert_job_keys[of "next_id database1" again "job_table database1"]
      in1 assms(4,5) by simp
  have second: "\<not> second" using p2(1) in1 assms(4,5) by simp
  have one: "stored (source job) (externalId job) database2 = 1"
    unfolding stored_def count_key keys2 using d1 in1
    by (simp add: count_list_distinct)
  have len: "length (job_table database2) = length (job_table database1)"
    using arg_cong[OF keys2, of length] by simp
  have uniq: "unique_keys database2" unfolding unique_keys_def keys2 by (rule d1)
  have loop: "process_jobs [again] new updated database1 = (new, Suc updated, database2)"
    using assms(3) second by simp
  show ?thesis using second one len uniq loop by simp
qed

theorem processJob_twice_stores_one_job_example:
  "unique_keys example_db
   \<and> stored ''naukri'' ''1''
       (snd (snd (process_jobs [posting ''naukri'' ''1'', posting ''naukri'' ''1''] 0 0
                    example_db))) = 1
   \<and> fst (process_jobs [posting ''naukri'' ''1'', posting ''naukri'' ''1''] 0 0 example_db)
       = 1
   \<and> fst (snd (process_jobs [posting ''naukri'' ''1'', posting ''naukri'' ''1''] 0 0
                  example_db)) = 1"
proof -
  define db1 where "db1 = example_db\<lparr>job_table :=
      upsert_job (next_id example_db) (posting ''naukri'' ''1'') (job_table example_db),
      next_id := Suc (next_id example_db)\<rparr>"
  define db2 where "db2 = db1\<lparr>job_table :=
      upsert_job (next_id db1) (posting ''naukri'' ''1'') (job_table db1),
      next_id := Suc (next_id db1)\<rparr>"
  have u: "unique_keys example_db" by (simp add: unique_keys_def example_db_def)
  have p1: "processJob (posting ''naukri'' ''1'') example_db = Inr (True, db1)"
    by (simp add: processJob_def job_findFirst_def upsertFromScraper_def example_db_def
          db1_def posting_def)
  have r1: "rejects db1 = (\<lambda>c. False)" by (simp add: db1_def example_db_def)
  have p2: "processJob (posting ''naukri'' ''1'') db1
      = Inr (find (\<lambda>j. source j = ''naukri'' \<and> externalId j = ''1'') (job_table db1) = None,
             db2)"
    by (simp add: processJob_def job_findFirst_def upsertFromScraper_def r1 db2_def
          posting_def)
  note t = processJob_twice_stores_one_job[OF u p1 p2 refl refl, of 1 0]
  have loop: "process_jobs [posting ''naukri'' ''1'', posting ''naukri'' ''1''] 0 0 example_db
      = process_jobs [posting ''naukri'' ''1''] 1 0 db1"
    using p1 by simp
  have fin: "process_jobs [posting ''naukri'' ''1''] 1 0 db1 = (1, 1, db2)"
    using p2 t by simp
  show ?thesis using u t loop fin by (simp add: posting_def)
qed

subsection \<open>One run of one adapter\<close>

lemma process_jobs_counts:
  "process_jobs jobs new updated database = (new', updated', database') \<Longrightarrow>
     new' + updated' \<le> new + updated + length jobs"
proof (induction jobs arbitrary: new updated database)
  case Nil
  then show ?case by simp
next
  case (Cons job jobs)
  show ?case
  proof (cases "processJob job database")
    case (Inl e)
    with Cons.prems have "process_jobs jobs new updated database = (new', updated', database')"
      by simp
    from Cons.IH[OF this] show ?thesis by simp
  next
    case (Inr p)
    obtain isNew db1 where p: "p = (isNew, db1)" by (cases p)
    show ?thesis
    proof (cases isNew)
      case True
      with Cons.prems Inr p
      have "process_jobs jobs (Suc new) updated db1 = (new', updated', database')" by simp
      from Cons.IH[OF this] show ?thesis by simp
    next
      case False
      with Cons.prems Inr p
      have "process_jobs jobs new (Suc updated) db1 = (new', updated', database')" by simp
      from Cons.IH[OF this] show ?thesis by simp
    qed
  qed
qed

lemma process_jobs_keeps:
  "process_jobs jobs new updated database = (new', updated', database') \<Longrightarrow>
     rejects database' = rejects database
     \<and> scraperRun_table database' = scraperRun_table database"
proof (induction jobs arbitrary: new updated database)
  case Nil
  then show ?case by simp
next
  case (Cons job jobs)
  show ?case
  proof (cases "processJob job database")
    case (Inl e)
    with Cons.prems have "process_jobs jobs new updated database = (new', updated', database')"
      by simp
    from Cons.IH[OF this] show ?thesis .
  next
    case (Inr p)
    obtain isNew db1 where p: "p = (isNew, db1)" by (cases p)
    note k = processJob_Inr(3,4)[OF Inr[unfolded p]]
    from Cons.prems Inr p
    have "process_jobs jobs (if isNew then Suc new else new)
            (if isNew then updated else Suc updated) db1 = (new', updated', database')"
      by (simp split: if_splits)
    from Cons.IH[OF this] k show ?thesis by simp
  qed
qed

lemma process_jobs_skips_failure:
  "processJob job database = Inl e \<Longrightarrow>
     process_jobs (job # jobs) new updated database = process_jobs jobs new updated database"
  by simp

text \<open>What the \<open>try\<close> block returns when it returns a result.\<close>

lemma runScraper_try_Inr:
  assumes "runScraper_try scraper config run startTime st = (Inr r, st')"
  shows "success r \<and> result_source r = name scraper
     \<and> jobsNew r + jobsUpdated r \<le> jobsFound r
     \<and> (\<exists>took jobs. scrape scraper config = (took, Inr jobs) \<and> jobsFound r = length jobs)"
proof -
  obtain took answer where sc: "scrape scraper config = (took, answer)"
    by (cases "scrape scraper config")
  show ?thesis
  proof (cases answer)
    case (Inl e)
    with assms sc show ?thesis by (simp add: runScraper_try_def)
  next
    case (Inr jobs)
    let ?st1 = "st\<lparr>clock := clock st + int took\<rparr>"
    obtain new updated db1 where pj: "process_jobs jobs 0 0 (db ?st1) = (new, updated, db1)"
      by (cases "process_jobs jobs 0 0 (db ?st1)") auto
    from process_jobs_counts[OF pj] have le: "new + updated \<le> length jobs" by simp
    from assms sc Inr pj have
      "r = \<lparr>result_source = name scraper, success = True, jobsFound = length jobs,
            jobsNew = new, jobsUpdated = updated, result_error = None, blocked = None,
            duration = Some (clock st + int took - startTime)\<rparr>"
      by (auto simp: runScraper_try_def Let_def split: sum.splits prod.splits)
    with le sc Inr show ?thesis by simp
  qed
qed

text \<open>Every result of \<open>runScraper\<close> comes from the \<open>try\<close> block or from the \<open>catch\<close> block.\<close>

lemma runScraper_Inr:
  assumes "runScraper scraper config st = Inr (r, st')"
  shows "(success r \<and> jobsNew r + jobsUpdated r \<le> jobsFound r
          \<and> (\<exists>took jobs. scrape scraper config = (took, Inr jobs)
                 \<and> jobsFound r = length jobs))
       \<or> (\<not> success r \<and> jobsFound r = 0 \<and> jobsNew r = 0 \<and> jobsUpdated r = 0
          \<and> result_error r \<noteq> None)"
proof -
  from assms obtain run db0 where
    cr: "scraperRun_create (db st) (name scraper) (clock st) = Inr (run, db0)"
    by (auto simp: runScraper_def Let_def split: sum.splits)
  obtain out st1 where tr:
    "runScraper_try scraper config run (clock st) (st\<lparr>db := db0\<rparr>) = (out, st1)"
    by (cases "runScraper_try scraper config run (clock st) (st\<lparr>db := db0\<rparr>)")
  show ?thesis
  proof (cases out)
    case (Inr r')
    with assms cr tr have "r' = r" by (simp add: runScraper_def Let_def)
    with runScraper_try_Inr[OF tr[unfolded Inr]] show ?thesis by simp
  next
    case (Inl err)
    with assms cr tr show ?thesis
      by (auto simp: runScraper_def Let_def split: sum.splits prod.splits)
  qed
qed


lemma scraperRun_create_ok:
  assumes "\<not> rejects database (ScraperRun_create src)"
  shows "\<exists>run db0. scraperRun_create database src now = Inr (run, db0)
           \<and> rejects db0 = rejects database
           \<and> list_ex (\<lambda>r. run_id r = run_id run) (scraperRun_table db0)"
  using assms by (simp add: scraperRun_create_def Let_def)

lemma scraperRun_update_ok:
  assumes "\<not> rejects database (ScraperRun_update rid status)"
    and "list_ex (\<lambda>r. run_id r = rid) (scraperRun_table database)"
  shows "\<exists>db1. scraperRun_update database rid status change = Inr db1
           \<and> rejects db1 = rejects database"
  using assms by (simp add: scraperRun_update_def)

text \<open>With writable run records a run always ends in a result, and the result tells
  whether the adapter threw.\<close>

lemma runScraper_writable:
  assumes w: "run_records_writable (db st)"
  shows "\<exists>r st'. runScraper scraper config st = Inr (r, st') \<and> reports config scraper r
            \<and> rejects (db st') = rejects (db st)"
proof -
  from w have nc: "\<not> rejects (db st) (ScraperRun_create (name scraper))"
    and nu: "\<And>rid status. \<not> rejects (db st) (ScraperRun_update rid status)"
    by (simp_all add: run_records_writable_def)
  from scraperRun_create_ok[OF nc, of "clock st"] obtain run db0 where
    cr: "scraperRun_create (db st) (name scraper) (clock st) = Inr (run, db0)"
    and r0: "rejects db0 = rejects (db st)"
    and row0: "list_ex (\<lambda>r. run_id r = run_id run) (scraperRun_table db0)"
    by blast
  obtain took answer where sc: "scrape scraper config = (took, answer)"
    by (cases "scrape scraper config")
  let ?st1 = "st\<lparr>db := db0, clock := clock st + int took\<rparr>"
  show ?thesis
  proof (cases answer)
    case (Inl err)
    have tr: "runScraper_try scraper config run (clock st) (st\<lparr>db := db0\<rparr>) = (Inl err, ?st1)"
      using sc Inl by (simp add: runScraper_try_def)
    have "\<not> rejects db0 (ScraperRun_update (run_id run) ''failed'')" using nu r0 by simp
    from scraperRun_update_ok[OF this row0] obtain db2 where
      up: "scraperRun_update db0 (run_id run) ''failed''
             (\<lambda>r. r\<lparr>completedAt := Some (clock ?st1),
                      errorMessage := Some (error_message err)\<rparr>) = Inr db2"
      and r2: "rejects db2 = rejects db0"
      by blast
    obtain flag hm where uh:
      "updateSourceHealth (clock ?st1) (name scraper) False (sourceHealth ?st1) = (flag, hm)"
      by (cases "updateSourceHealth (clock ?st1) (name scraper) False (sourceHealth ?st1)")
    have "runScraper scraper config st
        = Inr (\<lparr>result_source = name scraper, success = False, jobsFound = 0, jobsNew = 0,
                 jobsUpdated = 0, result_error = Some (error_message err),
                 blocked = Some flag, duration = Some (clock ?st1 - clock st)\<rparr>,
               ?st1\<lparr>db := db2, sourceHealth := hm\<rparr>)"
      using cr tr up uh by (simp add: runScraper_def Let_def)
    then show ?thesis using sc Inl r2 r0 by (simp add: reports_def)
  next
    case (Inr jobs)
    obtain new updated db1 where pj: "process_jobs jobs 0 0 db0 = (new, updated, db1)"
      by (cases "process_jobs jobs 0 0 db0") auto
    from process_jobs_keeps[OF pj] have r1: "rejects db1 = rejects db0"
      and t1: "scraperRun_table db1 = scraperRun_table db0" by simp_all
    have "\<not> rejects db1 (ScraperRun_update (run_id run) ''success'')" using nu r0 r1 by simp
    moreover have "list_ex (\<lambda>r. run_id r = run_id run) (scraperRun_table db1)"
      using row0 t1 by simp
    ultimately obtain db2 where
      up: "scraperRun_update db1 (run_id run) ''success''
             (\<lambda>r. r\<lparr>completedAt := Some (clock ?st1), run_jobsFound := Some (length jobs),
                      run_jobsNew := Some new, run_jobsUpdated := Some updated\<rparr>) = Inr db2"
      and r2: "rejects db2 = rejects db1"
      using scraperRun_update_ok by blast
    obtain flag hm where uh:
      "updateSourceHealth (clock ?st1) (name scraper) True (sourceHealth ?st1) = (flag, hm)"
      by (cases "updateSourceHealth (clock ?st1) (name scraper) True (sourceHealth ?st1)")
    have tr: "runScraper_try scraper config run (clock st) (st\<lparr>db := db0\<rparr>)
        = (Inr \<lparr>result_source = name scraper, success = True, jobsFound = length jobs,
                 jobsNew = new, jobsUpdated = updated, result_error = None, blocked = None,
                 duration = Some (clock ?st1 - clock st)\<rparr>,
           ?st1\<lparr>db := db2, sourceHealth := hm\<rparr>)"
      using sc Inr pj up uh by (simp add: runScraper_try_def Let_def)
    have "runScraper scraper config st
        = Inr (\<lparr>result_source = name scraper, success = True, jobsFound = length jobs,
                 jobsNew = new, jobsUpdated = updated, result_error = None, blocked = None,
                 duration = Some (clock ?st1 - clock st)\<rparr>,
               ?st1\<lparr>db := db2, sourceHealth := hm\<rparr>)"
      using cr tr by (simp add: runScraper_def Let_def)
    then show ?thesis using sc Inr r2 r1 r0 by (simp add: reports_def)
  qed
qed

text \<open>
  Claim C8. A result of \<open>runScraper\<close> with \<open>success = true\<close> has
  \<open>jobsNew + jobsUpdated \<le> jobsFound\<close>, where \<open>jobsFound\<close> is the number of jobs the
  adapter returned. A job whose processing throws is skipped by the loop with both
  counters unchanged, and it does not fail the run: when the adapter returns and the run
  records can be written, the run succeeds whatever happens to the single jobs.
\<close>

theorem successful_run_counts:
  "(runScraper scraper config st = Inr (r, st') \<and> success r \<longrightarrow>
      jobsNew r + jobsUpdated r \<le> jobsFound r
      \<and> (\<exists>took jobs. scrape scraper config = (took, Inr jobs) \<and> jobsFound r = length jobs))
   \<and> (processJob job database = Inl e \<longrightarrow>
        process_jobs (job # jobs) new updated database
          = process_jobs jobs new updated database)
   \<and> (run_records_writable (db st) \<and> snd (scrape scraper config) = Inr found \<longrightarrow>
        (\<exists>res st1. runScraper scraper config st = Inr (res, st1) \<and> success res
            \<and> jobsFound res = length found))"
proof (intro conjI impI)
  assume a: "runScraper scraper config st = Inr (r, st') \<and> success r"
  with runScraper_Inr[of scraper config st r st']
  show "jobsNew r + jobsUpdated r \<le> jobsFound r" by blast
  from a runScraper_Inr[of scraper config st r st']
  show "\<exists>took jobs. scrape scraper config = (took, Inr jobs) \<and> jobsFound r = length jobs"
    by blast
next
  assume "processJob job database = Inl e"
  then show "process_jobs (job # jobs) new updated database
      = process_jobs jobs new updated database"
    by (rule process_jobs_skips_failure)
next
  assume a: "run_records_writable (db st) \<and> snd (scrape scraper config) = Inr found"
  then obtain res st1 where
    "runScraper scraper config st = Inr (res, st1)" and "reports config scraper res"
    using runScraper_writable[of st scraper config] by blast
  with a show "\<exists>res st1. runScraper scraper config st = Inr (res, st1) \<and> success res
      \<and> jobsFound res = length found"
    by (auto simp: reports_def)
qed

theorem successful_run_counts_example:
  "(\<exists>e. processJob (posting ''naukri'' ''2'') one_bad_posting_db = Inl e)
   \<and> (\<exists>r st'. runScraper (portal_scraper ''naukri'') example_config one_bad_posting_service
                = Inr (r, st')
        \<and> success r \<and> jobsFound r = 2 \<and> jobsNew r + jobsUpdated r \<le> jobsFound r)"
proof -
  have bad: "processJob (posting ''naukri'' ''2'') one_bad_posting_db
      = Inl (PrismaError (Job_upsert ''naukri'' ''2''))"
    by (simp add: processJob_def job_findFirst_def upsertFromScraper_def
          one_bad_posting_db_def example_db_def posting_def)
  have w: "run_records_writable (db one_bad_posting_service)"
    by (simp add: run_records_writable_def one_bad_posting_service_def
          initializeScrapers_def one_bad_posting_db_def)
  have sc: "snd (scrape (portal_scraper ''naukri'') example_config)
      = Inr [posting ''naukri'' ''1'', posting ''naukri'' ''2'']"
    by (simp add: portal_scraper_def example_portal_def)
  note t = successful_run_counts[where scraper="portal_scraper ''naukri''"
      and config=example_config and st=one_bad_posting_service
      and found="[posting ''naukri'' ''1'', posting ''naukri'' ''2'']"
      and job="posting ''naukri'' ''2''" and database=one_bad_posting_db
      and e="PrismaError (Job_upsert ''naukri'' ''2'')"]
  from t w sc have "\<exists>res st1.
      runScraper (portal_scraper ''naukri'') example_config one_bad_posting_service
        = Inr (res, st1)
      \<and> success res
      \<and> jobsFound res = length [posting ''naukri'' ''1'', posting ''naukri'' ''2'']"
    by blast
  then obtain res st1 where
    run: "runScraper (portal_scraper ''naukri'') example_config one_bad_posting_service
            = Inr (res, st1)"
    and ok: "success res" and found: "jobsFound res = 2"
    by auto
  from t[where r=res and st'=st1] run ok
  have "jobsNew res + jobsUpdated res \<le> jobsFound res" by blast
  with bad run ok found show ?thesis by blast
qed

subsection \<open>A batch of runs\<close>











subsection \<open>Selecting the adapters to run\<close>

lemma toLowerCase_idem: "toLowerCase (toLowerCase s) = toLowerCase s"
proof -
  have "\<forall>c. toLowerCase_char (toLowerCase_char c) = toLowerCase_char c" by code_simp
  then show ?thesis by (simp add: toLowerCase_def)
qed

lemma health_lookup_misses:
  assumes "health_keys_lowercase st" and "toLowerCase requested \<noteq> requested"
  shows "map_of (sourceHealth st) requested = None"
proof -
  from assms have "requested \<notin> fst ` set (sourceHealth st)"
    by (auto simp: health_keys_lowercase_def list_all_iff)
  then show ?thesis by (simp add: map_of_eq_None_iff)
qed

lemma health_keys_initial: "health_keys_lowercase (initializeScrapers portal database now)"
  by (simp add: health_keys_lowercase_def initializeScrapers_def scraper_names_def
        toLowerCase_def toLowerCase_char_def)

text \<open>The health operations never add a key to the map.\<close>

lemma update_present_keys:
  assumes "map_of al k = Some v"
  shows "map fst (AList.update k v' al) = map fst al"
proof -
  from map_of_SomeD[OF assms] have "k \<in> fst ` set al" by force
  then show ?thesis by (simp add: update_keys)
qed

lemma health_operations_keep_keys:
  "map fst (snd (isSourceAvailable now src hm)) = map fst hm"
  "map fst (snd (updateSourceHealth now src ok hm)) = map fst hm"
  "map fst (snd (unblockSource src hm)) = map fst hm"
  "map fst (sourceHealth (snd (setSourceEnabled src flag st))) = map fst (sourceHealth st)"
  by (auto simp: isSourceAvailable_def updateSourceHealth_def unblockSource_def
        setSourceEnabled_def Let_def update_present_keys
      split: option.splits)

text \<open>
  A disabled source is refused by the availability check unless it is blocked and its
  block window has elapsed.
\<close>

lemma disabled_refused_unless_block_expired:
  assumes "map_of hm src = Some h" and "\<not> health_enabled h"
    and "\<not> isBlocked h \<or> blockedAt h = None
         \<or> (\<exists>t. blockedAt h = Some t \<and> now - t < blockDuration)"
  shows "isSourceAvailable now src hm = (False, hm)"
  using assms by (auto simp: isSourceAvailable_def split: option.splits)

text \<open>Without a list of sources only adapters whose own flag is set are selected.\<close>

lemma select_enabled_only_enabled:
  "list_all enabled (fst (select_enabled entries st))"
  by (induction entries arbitrary: st) (auto simp: case_prod_beta Let_def)

text \<open>
  Claim C9, at LinkedIn blocked by three failed runs at time 0, then disabled, and
  requested by name when 24 hours have passed. The health entry has \<open>enabled = false\<close>,
  yet the availability check takes its unblock branch, which returns \<open>true\<close> without
  looking at \<open>enabled\<close>: the adapter is selected and run. Without a list of sources the
  same source is not selected.
\<close>

theorem disabled_source_scheduled_after_block_window:
  "(case map_of (sourceHealth disabled_blocked_service) ''linkedin'' of
      Some h \<Rightarrow> \<not> health_enabled h \<and> isBlocked h \<and> blockedAt h = Some 0
    | None \<Rightarrow> False)
   \<and> clock disabled_blocked_service - 0 \<ge> blockDuration
   \<and> fst (isSourceAvailable (clock disabled_blocked_service) ''linkedin''
            (sourceHealth disabled_blocked_service))
   \<and> map name (fst (select_scrapers (Some [''linkedin'']) disabled_blocked_service))
       = [''linkedin'']
   \<and> (case scrapeAll (Inr example_config) (Some [''linkedin'']) no_overrides
              disabled_blocked_service of
        Inr (summary, st') \<Rightarrow> map result_source (results summary)
      | Inl e \<Rightarrow> [])
       = [''linkedin'']
   \<and> ''linkedin'' \<notin> set (map name (fst (select_scrapers None disabled_blocked_service)))"
  by code_simp

text \<open>
  Claim C10. The health map has lower-case keys only. A requested name that is not its
  own lower-case form misses the health lookup, so it adds nothing to the selection: a
  call of \<open>scrapeAll\<close> for that name alone returns the empty summary and leaves the
  service as it was, also when the adapter registered under the lower-case name is
  enabled and not blocked; requested under the lower-case name, that adapter is selected.
\<close>

theorem mixed_case_source_is_dropped:
  assumes "health_keys_lowercase st" and "toLowerCase requested \<noteq> requested"
  shows "select_sources (requested # rest) st = select_sources rest st
    \<and> select_scrapers (Some [requested]) st = ([], st)
    \<and> scrapeAll (Inr baseConfig) (Some [requested]) customConfig st
        = Inr (\<lparr>results = [], totalJobsNew = 0, totalJobsUpdated = 0\<rparr>, st)
    \<and> (map_of (scrapers st) (toLowerCase requested) = Some scraper
        \<and> map_of (sourceHealth st) (toLowerCase requested) = Some h
        \<and> health_enabled h \<and> \<not> isBlocked h \<longrightarrow>
        select_scrapers (Some [toLowerCase requested]) st = ([scraper], st))"
proof -
  note miss = health_lookup_misses[OF assms]
  have unavailable: "isSourceAvailable now requested (sourceHealth st) = (False, sourceHealth st)"
    for now
    using miss by (simp add: isSourceAvailable_def)
  have drop: "select_sources (requested # rest) st = select_sources rest st" for rest
    using unavailable by (simp split: option.splits)
  have none: "select_scrapers (Some [requested]) st = ([], st)"
    using drop[of "[]"] by (simp add: select_scrapers_def)
  have all: "scrapeAll (Inr baseConfig) (Some [requested]) customConfig st
        = Inr (\<lparr>results = [], totalJobsNew = 0, totalJobsUpdated = 0\<rparr>, st)"
    using none by (simp add: scrapeAll_def)
  have lower: "select_scrapers (Some [toLowerCase requested]) st = ([scraper], st)"
    if "map_of (scrapers st) (toLowerCase requested) = Some scraper"
      and "map_of (sourceHealth st) (toLowerCase requested) = Some h"
      and "health_enabled h" and "\<not> isBlocked h"
    using that
    by (simp add: select_scrapers_def toLowerCase_idem available_when_unblocked)
  show ?thesis using drop none all lower by blast
qed

theorem mixed_case_source_is_dropped_example:
  "health_keys_lowercase example_service \<and> toLowerCase ''LinkedIn'' \<noteq> ''LinkedIn''
   \<and> scrapeAll (Inr example_config) (Some [''LinkedIn'']) no_overrides example_service
       = Inr (\<lparr>results = [], totalJobsNew = 0, totalJobsUpdated = 0\<rparr>, example_service)
   \<and> map name (fst (select_scrapers (Some [''linkedin'']) example_service)) = [''linkedin'']"
proof -
  have k: "health_keys_lowercase example_service"
    unfolding example_service_def by (rule health_keys_initial)
  have n: "toLowerCase ''LinkedIn'' \<noteq> ''LinkedIn''"
    by (simp add: toLowerCase_def toLowerCase_char_def)
  have low: "toLowerCase ''LinkedIn'' = ''linkedin''"
    by (simp add: toLowerCase_def toLowerCase_char_def)
  have s: "map_of (scrapers example_service) ''linkedin'' = Some (portal_scraper ''linkedin'')"
    by (simp add: example_service_def initializeScrapers_def scraper_names_def
          portal_scraper_def)
  have h: "map_of (sourceHealth example_service) ''linkedin''
      = Some \<lparr>health_source = ''linkedin'', health_enabled = True, isBlocked = False,
               blockedAt = None, consecutiveFailures = 0, lastSuccess = None,
               lastRun = None\<rparr>"
    by (simp add: example_service_def initializeScrapers_def scraper_names_def)
  from mixed_case_source_is_dropped[OF k n, where baseConfig=example_config
         and customConfig=no_overrides and scraper="portal_scraper ''linkedin''"
         and h="\<lparr>health_source = ''linkedin'', health_enabled = True, isBlocked = False,
               blockedAt = None, consecutiveFailures = 0, lastSuccess = None,
               lastRun = None\<rparr>"]
    s h low
  show ?thesis using k n by (simp add: portal_scraper_def)
qed

end
